theory Spec2Isabelle
  imports Complex_Main
begin

section \<open>The collaborators of the contract analysis tool\<close>

text \<open>
  The tool \<open>get-contract-source\<close> of the Monad MCP server validates an address string,
  asks the Monadscan registry for verified source code, reads the deployed code and the
  balance from the chain, probes the ERC-20 and ERC-721 view functions, and builds one
  text response. The handler is an \<open>async\<close> function whose only effects are calls to
  collaborators: the viem public client and \<open>fetch\<close>. The model passes the
  collaborators in as a record of functions and returns, beside the result, the list of
  collaborator calls in the order in which the handler issues them.

  An error thrown or a promise rejected is the value \<open>Inl msg\<close>, with \<open>msg\<close> the message
  the outer \<open>catch\<close> prints.
\<close>

type_synonym err = string

text \<open>
  The three ABIs the handlers build with \<open>parseAbi\<close>: \<open>erc20Abi\<close> and \<open>erc721Abi\<close> of
  \<open>get-contract-source\<close>, and the \<open>erc20Abi\<close> of \<open>get-erc20-balance\<close>. A read is named
  by its ABI and its function, so that two reads of \<open>name()\<close> through different ABIs, which
  the handler issues at different times, may have different outcomes.
\<close>

datatype abi = Erc20Abi | Erc721Abi | BalanceErc20Abi

datatype abi_fn =
    Name
  | Symbol
  | Decimals
  | TotalSupply
  | SupportsInterface string
  | BalanceOf string

datatype call =
    Fetch string
  | GetBytecode string
  | GetBalance string
  | ReadContract string abi abi_fn

text \<open>
  A value produced by \<open>JSON.parse\<close>, with \<open>undefined\<close> added for the result of reading a
  property that is not there. An object is the list of its own properties.
\<close>

datatype jsval =
    JUndefined
  | JNull
  | JBool bool
  | JNum int
  | JStr string
  | JArr "jsval list"
  | JObj "(string \<times> jsval) list"

text \<open>
  The outcome of \<open>fetch(apiUrl)\<close> followed by \<open>response.json()\<close>: the request is
  rejected (no response at all), or there is a response with its \<open>ok\<close> flag and a body
  that parses as JSON or does not.
\<close>

datatype json_outcome = JsonRejected | JsonValue jsval

datatype fetch_outcome = FetchRejected | FetchResponse bool json_outcome

text \<open>
  \<open>isAddress\<close>, \<open>getAddress\<close>, \<open>formatUnits\<close> and \<open>formatEther\<close> are functions of the viem
  library, \<open>fetch\<close> is node-fetch, and the remaining fields are the methods of
  \<open>publicClient\<close>. \<open>getAddress\<close> is only called on a string that \<open>isAddress\<close> has
  accepted, where it does not throw. \<open>getBytecode\<close> resolves to a hex string or to
  \<open>undefined\<close> (\<open>None\<close>).
  \<open>readContract\<close> decodes the returned data by the output type the ABI declares, so a read
  of a \<open>string\<close>, \<open>uint\<close> or \<open>bool\<close> function is a field of its own. The number read for
  \<open>decimals()\<close> is not confined to the range of \<open>uint8\<close>: it is whatever natural number
  the contract returns.

  \<open>formatUnits(value, decimals)\<close> pads the digits of the value to \<open>decimals\<close> characters
  and throws a RangeError when that exceeds the longest string of the engine, so its
  result is an error or a string. \<open>formatEther\<close> formats with 18 decimals and returns.
\<close>

record env =
  isAddress :: "string \<Rightarrow> bool"
  getAddress :: "string \<Rightarrow> string"
  fetch :: "string \<Rightarrow> fetch_outcome"
  getBytecode :: "string \<Rightarrow> err + string option"
  getBalance :: "string \<Rightarrow> err + nat"
  readString :: "string \<Rightarrow> abi \<Rightarrow> abi_fn \<Rightarrow> err + string"
  readUint :: "string \<Rightarrow> abi \<Rightarrow> abi_fn \<Rightarrow> err + nat"
  readBool :: "string \<Rightarrow> abi \<Rightarrow> abi_fn \<Rightarrow> err + bool"
  formatUnits :: "nat \<Rightarrow> nat \<Rightarrow> err + string"
  formatEther :: "nat \<Rightarrow> string"

section \<open>JavaScript values\<close>

text \<open>Truthiness, as \<open>&&\<close> and \<open>if\<close> test it.\<close>

fun truthy :: "jsval \<Rightarrow> bool" where
  "truthy JUndefined = False"
| "truthy JNull = False"
| "truthy (JBool b) = b"
| "truthy (JNum n) = (n \<noteq> 0)"
| "truthy (JStr s) = (s \<noteq> [])"
| "truthy (JArr xs) = True"
| "truthy (JObj kvs) = True"

definition type_error :: err where
  "type_error = ''TypeError: Cannot read properties of undefined''"

text \<open>
  \<open>v.k\<close> for a property name \<open>k\<close> that no prototype defines (\<open>status\<close>, \<open>result\<close>,
  \<open>SourceCode\<close>): reading it from \<open>undefined\<close> or \<open>null\<close> throws a TypeError, an object
  gives its own property or \<open>undefined\<close>, every other value gives \<open>undefined\<close>.
\<close>

fun get_prop :: "jsval \<Rightarrow> string \<Rightarrow> err + jsval" where
  "get_prop JUndefined k = Inl type_error"
| "get_prop JNull k = Inl type_error"
| "get_prop (JObj kvs) k = (case map_of kvs k of None \<Rightarrow> Inr JUndefined | Some v \<Rightarrow> Inr v)"
| "get_prop v k = Inr JUndefined"

text \<open>
  \<open>v[0]\<close>: the first element of an array, the first character of a string, the
  property \<open>"0"\<close> of an object; \<open>undefined\<close> where there is none, a TypeError on
  \<open>undefined\<close> and \<open>null\<close>.
\<close>

fun get_index0 :: "jsval \<Rightarrow> err + jsval" where
  "get_index0 JUndefined = Inl type_error"
| "get_index0 JNull = Inl type_error"
| "get_index0 (JArr []) = Inr JUndefined"
| "get_index0 (JArr (x # xs)) = Inr x"
| "get_index0 (JStr []) = Inr JUndefined"
| "get_index0 (JStr (c # cs)) = Inr (JStr [c])"
| "get_index0 (JObj kvs) = (case map_of kvs ''0'' of None \<Rightarrow> Inr JUndefined | Some v \<Rightarrow> Inr v)"
| "get_index0 v = Inr JUndefined"

text \<open>\<open>promise.catch(() => d)\<close>: a rejection becomes the default.\<close>

definition catch_default :: "err + 'a \<Rightarrow> 'a \<Rightarrow> 'a" where
  "catch_default r d = (case r of Inl e \<Rightarrow> d | Inr v \<Rightarrow> v)"

section \<open>Step 1: the registry lookup\<close>

definition apiUrl :: "string \<Rightarrow> string" where
  "apiUrl contractAddress =
     ''https://api-testnet.monadscan.com/api?module=contract&action=getsourcecode&address=''
       @ contractAddress"

text \<open>
  The statement
  \<^verbatim>\<open>if (data.status === "1" && data.result[0].SourceCode) sourceCodeData = data.result[0];\<close>
  on the parsed body. \<open>Inl\<close> is a TypeError thrown while the condition is evaluated,
  \<open>Inr None\<close> leaves \<open>sourceCodeData\<close> at \<open>null\<close>.
\<close>

definition select_source :: "jsval \<Rightarrow> err + jsval option" where
  "select_source data =
     (case get_prop data ''status'' of
        Inl e \<Rightarrow> Inl e
      | Inr st \<Rightarrow>
          if st \<noteq> JStr ''1'' then Inr None
          else (case get_prop data ''result'' of
                  Inl e \<Rightarrow> Inl e
                | Inr res \<Rightarrow>
                    (case get_index0 res of
                       Inl e \<Rightarrow> Inl e
                     | Inr x \<Rightarrow>
                         (case get_prop x ''SourceCode'' of
                            Inl e \<Rightarrow> Inl e
                          | Inr sc \<Rightarrow> if truthy sc then Inr (Some x) else Inr None))))"

text \<open>
  The variable \<open>sourceCodeData\<close> after the inner \<open>try\<close>/\<open>catch\<close>: everything thrown
  inside (a rejected \<open>fetch\<close>, a body that is not JSON, a TypeError) is caught and leaves
  it at \<open>null\<close>.
\<close>

definition sourceCodeData :: "fetch_outcome \<Rightarrow> jsval option" where
  "sourceCodeData out =
     (case out of
        FetchRejected \<Rightarrow> None
      | FetchResponse ok body \<Rightarrow>
          if ok then
            (case body of
               JsonRejected \<Rightarrow> None
             | JsonValue data \<Rightarrow>
                 (case select_source data of Inl e \<Rightarrow> None | Inr s \<Rightarrow> s))
          else None)"

section \<open>Step 2: on-chain information\<close>

record TokenInfo =
  name :: string
  symbol :: string
  decimals :: "nat option"
  totalSupply :: "string option"

record ContractInfo =
  exists :: bool
  isContract :: bool
  balance :: string
  bytecodeSize :: rat
  isERC20 :: bool
  isERC721 :: bool
  tokenInfo :: "TokenInfo option"
  transactionCount :: nat

definition initialContractInfo :: ContractInfo where
  "initialContractInfo =
     \<lparr> exists = False, isContract = False, balance = ''0'', bytecodeSize = 0,
       isERC20 = False, isERC721 = False, tokenInfo = None, transactionCount = 0 \<rparr>"

text \<open>The test \<^verbatim>\<open>bytecode && bytecode !== "0x"\<close>.\<close>

definition hasCode :: "string option \<Rightarrow> bool" where
  "hasCode bytecode =
     (case bytecode of None \<Rightarrow> False | Some s \<Rightarrow> s \<noteq> [] \<and> s \<noteq> ''0x'')"

text \<open>\<^verbatim>\<open>(bytecode.length - 2) / 2\<close>, a division of JavaScript numbers.\<close>

definition bytecodeSizeOf :: "string \<Rightarrow> rat" where
  "bytecodeSizeOf s = (of_nat (length s) - 2) / 2"

text \<open>
  The ERC-20 probe: \<open>Promise.all\<close> over four reads, all issued; any rejection lands in the
  empty \<open>catch\<close> and leaves \<open>isERC20\<close> false and \<open>tokenInfo\<close> null. When all four
  resolve, the handler first sets \<open>isERC20 = true\<close> and then builds \<open>tokenInfo\<close>, calling
  \<open>formatUnits(totalSupply, decimals)\<close> inside the same \<open>try\<close>: when that throws, the
  empty \<open>catch\<close> is reached with \<open>isERC20\<close> already true and \<open>tokenInfo\<close> still null.
  The result is the pair of \<open>isERC20\<close> and \<open>tokenInfo\<close> after the \<open>try\<close>/\<open>catch\<close>.
\<close>

definition erc20_calls :: "string \<Rightarrow> call list" where
  "erc20_calls a =
     [ReadContract a Erc20Abi Name, ReadContract a Erc20Abi Symbol,
      ReadContract a Erc20Abi Decimals, ReadContract a Erc20Abi TotalSupply]"

definition erc20_probe :: "env \<Rightarrow> string \<Rightarrow> bool \<times> TokenInfo option" where
  "erc20_probe e a =
     (case readString e a Erc20Abi Name of
        Inl x \<Rightarrow> (False, None)
      | Inr n \<Rightarrow>
          (case readString e a Erc20Abi Symbol of
             Inl x \<Rightarrow> (False, None)
           | Inr s \<Rightarrow>
               (case readUint e a Erc20Abi Decimals of
                  Inl x \<Rightarrow> (False, None)
                | Inr d \<Rightarrow>
                    (case readUint e a Erc20Abi TotalSupply of
                       Inl x \<Rightarrow> (False, None)
                     | Inr t \<Rightarrow>
                         (case formatUnits e t d of
                            Inl x \<Rightarrow> (True, None)
                          | Inr ts \<Rightarrow>
                              (True,
                               Some \<lparr> name = n, symbol = s, decimals = Some d,
                                      totalSupply = Some ts \<rparr>))))))"

text \<open>
  The ERC-721 probe: one read of \<open>supportsInterface(0x80ac58cd)\<close>; when it resolves to
  true, \<open>isERC721\<close> is set and \<open>name\<close> and \<open>symbol\<close> are read with defaults. A rejection
  of \<open>supportsInterface\<close> lands in the empty \<open>catch\<close>.
\<close>

definition erc721_interface_id :: string where
  "erc721_interface_id = ''0x80ac58cd''"

definition erc721_probe :: "env \<Rightarrow> string \<Rightarrow> call list \<times> TokenInfo option" where
  "erc721_probe e a =
     (case readBool e a Erc721Abi (SupportsInterface erc721_interface_id) of
        Inl x \<Rightarrow> ([ReadContract a Erc721Abi (SupportsInterface erc721_interface_id)], None)
      | Inr supportsERC721 \<Rightarrow>
          if supportsERC721 then
            ([ReadContract a Erc721Abi (SupportsInterface erc721_interface_id),
              ReadContract a Erc721Abi Name, ReadContract a Erc721Abi Symbol],
             Some \<lparr> name = catch_default (readString e a Erc721Abi Name) ''Unknown'',
                    symbol = catch_default (readString e a Erc721Abi Symbol) ''UNKNOWN'',
                    decimals = None, totalSupply = None \<rparr>)
          else ([ReadContract a Erc721Abi (SupportsInterface erc721_interface_id)], None))"

text \<open>
  The contract branch after the balance has been read: the ERC-20 probe, and the ERC-721
  probe only under \<^verbatim>\<open>if (!contractInfo.isERC20)\<close>.
\<close>

definition classify :: "env \<Rightarrow> string \<Rightarrow> call list \<times> bool \<times> bool \<times> TokenInfo option" where
  "classify e a =
     (case erc20_probe e a of
        (erc20, tok) \<Rightarrow>
          if \<not> erc20 then
            (case erc721_probe e a of
               (cs, r) \<Rightarrow> (erc20_calls a @ cs, False, r \<noteq> None, r))
          else (erc20_calls a, True, False, tok))"

text \<open>
  Step 2 as a whole. A rejection of \<open>getBytecode\<close> or \<open>getBalance\<close> is not caught here:
  it reaches the outer \<open>catch\<close> of the handler.
\<close>

definition contract_info :: "env \<Rightarrow> string \<Rightarrow> call list \<times> (err + ContractInfo)" where
  "contract_info e contractAddress =
     (let a = getAddress e contractAddress in
      case getBytecode e a of
        Inl x \<Rightarrow> ([GetBytecode a], Inl x)
      | Inr bytecode \<Rightarrow>
          if hasCode bytecode then
            (case getBalance e a of
               Inl x \<Rightarrow> ([GetBytecode a, GetBalance a], Inl x)
             | Inr b \<Rightarrow>
                 (case classify e a of
                    (cs, erc20, erc721, tok) \<Rightarrow>
                      ([GetBytecode a, GetBalance a] @ cs,
                       Inr (initialContractInfo
                              \<lparr> exists := True, isContract := True,
                                bytecodeSize := bytecodeSizeOf (the bytecode),
                                balance := formatEther e b,
                                isERC20 := erc20, isERC721 := erc721, tokenInfo := tok \<rparr>))))
          else
            (case getBalance e a of
               Inl x \<Rightarrow> ([GetBytecode a, GetBalance a], Inl x)
             | Inr b \<Rightarrow>
                 ([GetBytecode a, GetBalance a],
                  Inr (initialContractInfo \<lparr> balance := formatEther e b \<rparr>))))"

section \<open>Step 3: the response\<close>

text \<open>
  The response text is built from fixed sentences and the values below; the model keeps
  which sentences are chosen and the values put into them. The rendering of
  \<open>sourceCodeData\<close>'s fields in the verified section is not modelled: the section carries
  the registry's record as it is.
\<close>

datatype token_section =
    Erc20Detected string string "nat option" "string option"
  | Erc721Detected string string
  | UnknownType

datatype source_section = VerifiedSource jsval | SourceNotVerified

datatype report =
    EoaReport string
  | ContractReport string rat token_section source_section

definition token_section_of :: "ContractInfo \<Rightarrow> token_section" where
  "token_section_of c =
     (if isERC20 c \<and> tokenInfo c \<noteq> None then
        (case the (tokenInfo c) of t \<Rightarrow>
           Erc20Detected (name t) (symbol t) (decimals t) (totalSupply t))
      else if isERC721 c \<and> tokenInfo c \<noteq> None then
        (case the (tokenInfo c) of t \<Rightarrow> Erc721Detected (name t) (symbol t))
      else UnknownType)"

definition source_section_of :: "jsval option \<Rightarrow> source_section" where
  "source_section_of src =
     (case src of Some d \<Rightarrow> VerifiedSource d | None \<Rightarrow> SourceNotVerified)"

definition build_response :: "ContractInfo \<Rightarrow> jsval option \<Rightarrow> report" where
  "build_response c src =
     (if \<not> isContract c then EoaReport (balance c)
      else ContractReport (balance c) (bytecodeSize c) (token_section_of c)
             (source_section_of src))"

section \<open>The handler of get-contract-source\<close>

definition invalid_address_msg :: err where
  "invalid_address_msg = ''Invalid contract address format''"

record analysis =
  contractInfo :: ContractInfo
  sourceCode :: "jsval option"

text \<open>
  The handler up to the end of step 2: the validation, the registry request, the chain
  reads. The result is the pair of values step 3 reads, or the message of the error that
  reached the outer \<open>catch\<close>.
\<close>

definition analyze :: "env \<Rightarrow> string \<Rightarrow> call list \<times> (err + analysis)" where
  "analyze e contractAddress =
     (if \<not> isAddress e contractAddress then ([], Inl invalid_address_msg)
      else
        (let src = sourceCodeData (fetch e (apiUrl contractAddress)) in
         case contract_info e contractAddress of
           (cs, Inl x) \<Rightarrow> (Fetch (apiUrl contractAddress) # cs, Inl x)
         | (cs, Inr c) \<Rightarrow>
             (Fetch (apiUrl contractAddress) # cs,
              Inr \<lparr> contractInfo = c, sourceCode = src \<rparr>)))"

text \<open>
  The whole handler: \<open>Inl msg\<close> is the response "Failed to analyze contract: msg",
  \<open>Inr r\<close> the analysis text.
\<close>

definition get_contract_source :: "env \<Rightarrow> string \<Rightarrow> call list \<times> (err + report)" where
  "get_contract_source e contractAddress =
     (case analyze e contractAddress of
        (cs, Inl x) \<Rightarrow> (cs, Inl x)
      | (cs, Inr an) \<Rightarrow> (cs, Inr (build_response (contractInfo an) (sourceCode an))))"

section \<open>The handler of get-erc20-balance\<close>

record Erc20Balance =
  tokenName :: string
  tokenSymbol :: string
  formattedBalance :: string
  tokenAddressShown :: string

text \<open>
  \<open>Promise.all\<close> over \<open>balanceOf\<close> and the three metadata reads; only \<open>balanceOf\<close> has no
  \<open>.catch\<close>, so of the reads only its rejection reaches the outer \<open>catch\<close> ("Failed to
  retrieve token balance: msg"). After the reads, \<open>formatUnits(balance, decimals)\<close> is
  called in the same \<open>try\<close>: when it throws, its error reaches the outer \<open>catch\<close> too.
\<close>

definition get_erc20_balance :: "env \<Rightarrow> string \<Rightarrow> string \<Rightarrow> err + Erc20Balance" where
  "get_erc20_balance e address tokenAddress =
     (if \<not> isAddress e address \<or> \<not> isAddress e tokenAddress
      then Inl ''Invalid address format''
      else
        (let t = getAddress e tokenAddress in
         case readUint e t BalanceErc20Abi (BalanceOf (getAddress e address)) of
           Inl x \<Rightarrow> Inl x
         | Inr b \<Rightarrow>
             (let n = catch_default (readString e t BalanceErc20Abi Name) ''Unknown'';
                  s = catch_default (readString e t BalanceErc20Abi Symbol) ''UNKNOWN'';
                  d = catch_default (readUint e t BalanceErc20Abi Decimals) 18
              in case formatUnits e b d of
                   Inl x \<Rightarrow> Inl x
                 | Inr fb \<Rightarrow>
                     Inr \<lparr> tokenName = n, tokenSymbol = s, formattedBalance = fb,
                           tokenAddressShown = tokenAddress \<rparr>)))"

section \<open>Predicates of the statements\<close>

text \<open>Which entries of a call list are code reads, and which are registry requests.\<close>

fun isGetBytecode :: "call \<Rightarrow> bool" where
  "isGetBytecode (GetBytecode a) = True"
| "isGetBytecode c = False"

fun isFetch :: "call \<Rightarrow> bool" where
  "isFetch (Fetch u) = True"
| "isFetch c = False"

text \<open>
  The registry outcomes of claim C5, in the claim's words: a transport failure, a
  non-success HTTP status, an API status field other than \<open>"1"\<close>, a success body whose
  result list is empty, and a first result whose source-code field is absent or empty.
\<close>

inductive registry_failure :: "fetch_outcome \<Rightarrow> bool" where
  transport_failure: "registry_failure FetchRejected"
| http_status: "registry_failure (FetchResponse False body)"
| api_status:
    "map_of kvs ''status'' \<noteq> Some (JStr ''1'') \<Longrightarrow>
     registry_failure (FetchResponse True (JsonValue (JObj kvs)))"
| empty_result:
    "map_of kvs ''result'' = Some (JArr []) \<Longrightarrow>
     registry_failure (FetchResponse True (JsonValue (JObj kvs)))"
| no_source:
    "map_of kvs ''result'' = Some (JArr (JObj r # rest)) \<Longrightarrow>
     map_of r ''SourceCode'' = None \<or> map_of r ''SourceCode'' = Some (JStr []) \<Longrightarrow>
     registry_failure (FetchResponse True (JsonValue (JObj kvs)))"

section \<open>Sample collaborators\<close>

text \<open>
  Concrete collaborators on which the theorems below are evaluated. The sample
  \<open>isAddress\<close> accepts \<open>0x\<close> followed by forty hex digits; the sample
  \<open>getAddress\<close> returns the (all lower-case) address unchanged.
\<close>

definition is_hex_digit :: "char \<Rightarrow> bool" where
  "is_hex_digit c = (c \<in> set ''0123456789abcdefABCDEF'')"

definition sample_isAddress :: "string \<Rightarrow> bool" where
  "sample_isAddress s = (length s = 42 \<and> take 2 s = ''0x'' \<and> list_all is_hex_digit (drop 2 s))"

definition sample_address :: string where
  "sample_address = ''0x742d35cc6634c0532925a3b844bc9d24e013d74e''"

text \<open>
  A decimal formatter in the manner of viem's \<open>formatUnits\<close>: the decimal digits of the
  value, padded on the left to \<open>d\<close> digits, split \<open>d\<close> digits from the right, with
  the trailing zeros of the fraction removed. Padding to more than \<open>2^29 - 24\<close>
  characters, the longest string of V8, is the RangeError.
\<close>

fun decimal :: "nat \<Rightarrow> string" where
  "decimal n =
     (if n < 10 then [''0123456789'' ! n]
      else decimal (n div 10) @ [''0123456789'' ! (n mod 10)])"

declare decimal.simps [simp del]

definition format_decimal :: "nat \<Rightarrow> nat \<Rightarrow> string" where
  "format_decimal v d =
     (let display = decimal v;
          padded = replicate (d - length display) (CHR ''0'') @ display;
          integer = take (length padded - d) padded;
          fraction = rev (dropWhile (\<lambda>c. c = CHR ''0'') (rev (drop (length padded - d) padded)))
      in (if integer = [] then ''0'' else integer)
           @ (if fraction = [] then [] else ''.'' @ fraction))"

definition max_string_length :: nat where
  "max_string_length = 536870888"

definition sample_formatUnits :: "nat \<Rightarrow> nat \<Rightarrow> err + string" where
  "sample_formatUnits v d =
     (if max_string_length < d then Inl ''Invalid string length''
      else Inr (format_decimal v d))"

text \<open>
  An externally owned account holding 5 MON: no deployed code, every contract read
  reverts, the registry cannot be reached.
\<close>

definition eoa_env :: env where
  "eoa_env =
     \<lparr> isAddress = sample_isAddress,
       getAddress = (\<lambda>s. s),
       fetch = (\<lambda>u. FetchRejected),
       getBytecode = (\<lambda>a. Inr None),
       getBalance = (\<lambda>a. Inr 5000000000000000000),
       readString = (\<lambda>a i f. Inl ''execution reverted''),
       readUint = (\<lambda>a i f. Inl ''execution reverted''),
       readBool = (\<lambda>a i f. Inl ''execution reverted''),
       formatUnits = sample_formatUnits,
       formatEther = (\<lambda>v. format_decimal v 18) \<rparr>"

text \<open>The same with two bytes of deployed code: a contract of unknown type.\<close>

definition unknown_env :: env where
  "unknown_env = eoa_env \<lparr> getBytecode := (\<lambda>a. Inr (Some ''0x6080'')) \<rparr>"

text \<open>
  A contract on which every read succeeds, \<open>supportsInterface\<close> included: it satisfies
  the ERC-20 probe and would satisfy the ERC-721 probe.
\<close>

definition both_env :: env where
  "both_env =
     unknown_env
       \<lparr> readString := (\<lambda>a i f. Inr (if f = Name then ''Token'' else ''TKN'')),
         readUint := (\<lambda>a i f. Inr (if f = Decimals then 6 else 1000000)),
         readBool := (\<lambda>a i f. Inr True) \<rparr>"

text \<open>
  The same contract answering \<open>decimals()\<close> with \<open>2^32\<close>: every read succeeds, and
  formatting the total supply throws.
\<close>

definition oversized_decimals_env :: env where
  "oversized_decimals_env =
     both_env \<lparr> readUint := (\<lambda>a i f. Inr (if f = Decimals then 4294967296 else 1000000)) \<rparr>"

text \<open>
  A contract that answers \<open>name()\<close>, \<open>symbol()\<close> and \<open>totalSupply()\<close> but neither
  \<open>decimals()\<close> nor \<open>supportsInterface\<close>.
\<close>

definition no_decimals_env :: env where
  "no_decimals_env =
     unknown_env
       \<lparr> readString := (\<lambda>a i f. Inr (if f = Name then ''Token'' else ''TKN'')),
         readUint := (\<lambda>a i f. if f = Decimals then Inl ''execution reverted''
                                else Inr 1000000) \<rparr>"

text \<open>A contract that only answers \<open>supportsInterface\<close>, with true.\<close>

definition nft_env :: env where
  "nft_env = unknown_env \<lparr> readBool := (\<lambda>a i f. Inr True) \<rparr>"

text \<open>Registry bodies: a success status with an empty result list, and a verified contract.\<close>

definition empty_result_body :: jsval where
  "empty_result_body =
     JObj [(''status'', JStr ''1''), (''message'', JStr ''OK''), (''result'', JArr [])]"

definition empty_result_env :: env where
  "empty_result_env = both_env \<lparr> fetch := (\<lambda>u. FetchResponse True (JsonValue empty_result_body)) \<rparr>"

definition verified_record :: jsval where
  "verified_record =
     JObj [(''SourceCode'', JStr ''contract C {}''), (''ContractName'', JStr ''C''),
           (''CompilerVersion'', JStr ''v0.8.24''), (''OptimizationUsed'', JStr ''1''),
           (''Runs'', JStr ''200'')]"

definition verified_body :: jsval where
  "verified_body =
     JObj [(''status'', JStr ''1''), (''message'', JStr ''OK''), (''result'', JArr [verified_record])]"

definition verified_eoa_env :: env where
  "verified_eoa_env = eoa_env \<lparr> fetch := (\<lambda>u. FetchResponse True (JsonValue verified_body)) \<rparr>"

text \<open>A token that answers \<open>balanceOf\<close> with 42 and nothing else.\<close>

definition balance_only_env :: env where
  "balance_only_env =
     eoa_env \<lparr> readUint := (\<lambda>a i f. case f of BalanceOf h \<Rightarrow> Inr 42
                                       | _ \<Rightarrow> Inl ''execution reverted'') \<rparr>"

section \<open>Basic facts about the handler\<close>

lemma sample_valid: "sample_isAddress sample_address"
  by (simp add: sample_isAddress_def sample_address_def is_hex_digit_def)

lemma sample_formats:
  "format_decimal 5000000000000000000 18 = ''5''"
  "format_decimal 1000000 6 = ''1''"
  "format_decimal 42 18 = ''0.000000000000000042''"
  by (simp_all add: format_decimal_def decimal.simps Let_def) (simp add: eval_nat_numeral)

lemma sample_formatUnits_results:
  "sample_formatUnits 1000000 6 = Inr ''1''"
  "sample_formatUnits 42 18 = Inr ''0.000000000000000042''"
  "sample_formatUnits 1000000 4294967296 = Inl ''Invalid string length''"
  by (simp_all add: sample_formatUnits_def max_string_length_def sample_formats)

lemma hasCode_iff: "hasCode code \<longleftrightarrow> (\<exists>s. code = Some s \<and> s \<noteq> [] \<and> s \<noteq> ''0x'')"
  by (cases code) (simp_all add: hasCode_def)

lemma analyze_valid:
  "isAddress e a \<Longrightarrow>
   analyze e a =
     (Fetch (apiUrl a) # fst (contract_info e a),
      map_sum (\<lambda>x. x)
        (\<lambda>c. \<lparr> contractInfo = c, sourceCode = sourceCodeData (fetch e (apiUrl a)) \<rparr>)
        (snd (contract_info e a)))"
  by (cases "contract_info e a") (auto simp: analyze_def split: sum.splits)

lemma get_contract_source_eq:
  "get_contract_source e a =
     (fst (analyze e a),
      map_sum (\<lambda>x. x) (\<lambda>an. build_response (contractInfo an) (sourceCode an))
        (snd (analyze e a)))"
  by (cases "analyze e a") (auto simp: get_contract_source_def split: sum.splits)

lemma contract_info_eoa:
  assumes "getBytecode e (getAddress e a) = Inr code" and "\<not> hasCode code"
  shows "contract_info e a =
     ([GetBytecode (getAddress e a), GetBalance (getAddress e a)],
      map_sum (\<lambda>x. x) (\<lambda>b. initialContractInfo \<lparr> balance := formatEther e b \<rparr>)
        (getBalance e (getAddress e a)))"
  using assms by (simp add: contract_info_def Let_def split: sum.splits)

lemma contract_info_contract:
  assumes "getBytecode e (getAddress e a) = Inr (Some s)" and "hasCode (Some s)"
      and "getBalance e (getAddress e a) = Inr b"
  shows "contract_info e a =
     ([GetBytecode (getAddress e a), GetBalance (getAddress e a)]
        @ fst (classify e (getAddress e a)),
      Inr \<lparr> exists = True, isContract = True, balance = formatEther e b,
            bytecodeSize = bytecodeSizeOf s,
            isERC20 = fst (snd (classify e (getAddress e a))),
            isERC721 = fst (snd (snd (classify e (getAddress e a)))),
            tokenInfo = snd (snd (snd (classify e (getAddress e a)))),
            transactionCount = 0 \<rparr>)"
  using assms
  by (simp add: contract_info_def Let_def initialContractInfo_def split: prod.splits)

text \<open>
  Claim C1. When the deployed code of a valid address is absent (\<open>undefined\<close>) or empty
  (the empty string or \<open>0x\<close>), no \<open>readContract\<close> call is made during the request,
  whatever else happens; every analysis that is produced says "not a contract", carries
  no ERC-20 or ERC-721 flag and no token information; and when the balance read succeeds
  the response is the externally-owned-account text with that balance.
\<close>

theorem eoa_is_never_classified:
  assumes "isAddress e a"
      and "getBytecode e (getAddress e a) = Inr code"
      and "code = None \<or> code = Some [] \<or> code = Some ''0x''"
  shows "(\<forall>x i f. ReadContract x i f \<notin> set (fst (analyze e a)))
       \<and> (\<forall>an. snd (analyze e a) = Inr an \<longrightarrow>
             \<not> isContract (contractInfo an) \<and> \<not> isERC20 (contractInfo an)
           \<and> \<not> isERC721 (contractInfo an) \<and> tokenInfo (contractInfo an) = None)
       \<and> (\<forall>b. getBalance e (getAddress e a) = Inr b \<longrightarrow>
             snd (get_contract_source e a) = Inr (EoaReport (formatEther e b)))"
proof -
  from assms(3) have nc: "\<not> hasCode code" by (auto simp: hasCode_def)
  note ci = contract_info_eoa [OF assms(2) nc]
  note an = analyze_valid [OF assms(1)]
  have "\<forall>x i f. ReadContract x i f \<notin> set (fst (analyze e a))"
    by (simp add: an ci)
  moreover have "\<forall>an. snd (analyze e a) = Inr an \<longrightarrow>
             \<not> isContract (contractInfo an) \<and> \<not> isERC20 (contractInfo an)
           \<and> \<not> isERC721 (contractInfo an) \<and> tokenInfo (contractInfo an) = None"
    by (cases "getBalance e (getAddress e a)") (auto simp: an ci initialContractInfo_def)
  moreover have "\<forall>b. getBalance e (getAddress e a) = Inr b \<longrightarrow>
             snd (get_contract_source e a) = Inr (EoaReport (formatEther e b))"
    by (auto simp: get_contract_source_def an ci initialContractInfo_def build_response_def)
  ultimately show ?thesis by blast
qed

theorem eoa_is_never_classified_witness:
  "isAddress eoa_env sample_address
   \<and> getBytecode eoa_env (getAddress eoa_env sample_address) = Inr None
   \<and> fst (analyze eoa_env sample_address) =
       [Fetch (apiUrl sample_address), GetBytecode sample_address, GetBalance sample_address]
   \<and> (\<forall>x i f. ReadContract x i f \<notin> set (fst (analyze eoa_env sample_address)))
   \<and> snd (get_contract_source eoa_env sample_address) = Inr (EoaReport ''5'')"
proof -
  have v: "isAddress eoa_env sample_address"
    by (simp add: eoa_env_def sample_valid)
  have c: "getBytecode eoa_env (getAddress eoa_env sample_address) = Inr None"
    by (simp add: eoa_env_def)
  have b: "getBalance eoa_env (getAddress eoa_env sample_address) = Inr 5000000000000000000"
    by (simp add: eoa_env_def)
  have g: "getAddress eoa_env sample_address = sample_address"
    by (simp add: eoa_env_def)
  have f: "formatEther eoa_env 5000000000000000000 = ''5''"
    by (simp add: eoa_env_def sample_formats)
  have t: "fst (analyze eoa_env sample_address) =
       [Fetch (apiUrl sample_address), GetBytecode sample_address, GetBalance sample_address]"
    using v c b by (simp add: analyze_def contract_info_def hasCode_def g)
  from eoa_is_never_classified [OF v c] b f v c t show ?thesis by simp
qed

lemma erc20_probe_reads:
  assumes "readString e a Erc20Abi Name = Inr n" and "readString e a Erc20Abi Symbol = Inr s"
      and "readUint e a Erc20Abi Decimals = Inr d" and "readUint e a Erc20Abi TotalSupply = Inr t"
  shows "erc20_probe e a =
           (True,
            case formatUnits e t d of
              Inl x \<Rightarrow> None
            | Inr ts \<Rightarrow> Some \<lparr> name = n, symbol = s, decimals = Some d,
                                totalSupply = Some ts \<rparr>)"
  using assms by (simp add: erc20_probe_def split: sum.splits)

lemma erc20_probe_failed_iff:
  "erc20_probe e a = (False, None) \<longleftrightarrow>
     isl (readString e a Erc20Abi Name) \<or> isl (readString e a Erc20Abi Symbol)
   \<or> isl (readUint e a Erc20Abi Decimals) \<or> isl (readUint e a Erc20Abi TotalSupply)"
  by (auto simp: erc20_probe_def split: sum.splits)

lemma erc20_flag_iff:
  "fst (erc20_probe e a) \<longleftrightarrow>
     (\<exists>n s d t. readString e a Erc20Abi Name = Inr n
        \<and> readString e a Erc20Abi Symbol = Inr s
        \<and> readUint e a Erc20Abi Decimals = Inr d
        \<and> readUint e a Erc20Abi TotalSupply = Inr t)"
  by (auto simp: erc20_probe_def split: sum.splits)

lemma classify_erc20:
  "erc20_probe e a = (True, tok) \<Longrightarrow> classify e a = (erc20_calls a, True, False, tok)"
  by (simp add: classify_def)

lemma classify_not_erc20:
  "erc20_probe e a = (False, None) \<Longrightarrow>
   classify e a =
     (erc20_calls a @ fst (erc721_probe e a), False,
      snd (erc721_probe e a) \<noteq> None, snd (erc721_probe e a))"
  by (simp add: classify_def split: prod.splits)

lemma erc721_probe_true:
  "readBool e a Erc721Abi (SupportsInterface ''0x80ac58cd'') = Inr True \<Longrightarrow>
   erc721_probe e a =
     ([ReadContract a Erc721Abi (SupportsInterface ''0x80ac58cd''),
       ReadContract a Erc721Abi Name, ReadContract a Erc721Abi Symbol],
      Some \<lparr> name = (case readString e a Erc721Abi Name of Inl x \<Rightarrow> ''Unknown'' | Inr v \<Rightarrow> v),
             symbol = (case readString e a Erc721Abi Symbol of Inl x \<Rightarrow> ''UNKNOWN'' | Inr v \<Rightarrow> v),
             decimals = None, totalSupply = None \<rparr>)"
  by (simp add: erc721_probe_def erc721_interface_id_def catch_default_def)

lemma erc721_probe_other:
  "readBool e a Erc721Abi (SupportsInterface ''0x80ac58cd'') \<noteq> Inr True \<Longrightarrow>
   erc721_probe e a = ([ReadContract a Erc721Abi (SupportsInterface ''0x80ac58cd'')], None)"
  by (auto simp: erc721_probe_def erc721_interface_id_def split: sum.splits)

lemma erc20_probe_fetch_irrelevant:
  "erc20_probe (e \<lparr> fetch := f \<rparr>) a = erc20_probe e a"
  by (simp add: erc20_probe_def split: sum.splits)

lemma erc721_probe_fetch_irrelevant:
  "erc721_probe (e \<lparr> fetch := f \<rparr>) a = erc721_probe e a"
  by (simp add: erc721_probe_def split: sum.splits)

lemma classify_fetch_irrelevant:
  "classify (e \<lparr> fetch := f \<rparr>) a = classify e a"
  by (simp add: classify_def erc20_probe_fetch_irrelevant erc721_probe_fetch_irrelevant
        split: prod.splits)

lemma contract_info_fetch_irrelevant:
  "contract_info (e \<lparr> fetch := f \<rparr>) a = contract_info e a"
  by (simp add: contract_info_def classify_fetch_irrelevant Let_def split: sum.splits)

lemma contract_info_succeeds:
  assumes "getBytecode e (getAddress e a) = Inr code"
      and "getBalance e (getAddress e a) = Inr b"
  shows "\<exists>c. snd (contract_info e a) = Inr c"
  using assms by (simp add: contract_info_def Let_def split: prod.splits)

lemma sample_env_facts:
  "isAddress eoa_env = sample_isAddress" "getAddress eoa_env a = a"
  "isAddress unknown_env = sample_isAddress" "getAddress unknown_env a = a"
  "isAddress both_env = sample_isAddress" "getAddress both_env a = a"
  "isAddress nft_env = sample_isAddress" "getAddress nft_env a = a"
  by (simp_all add: eoa_env_def unknown_env_def both_env_def nft_env_def)

text \<open>
  What the handler does for a contract whose four ERC-20 reads succeed, in both cases of
  \<open>formatUnits\<close>: the calls are the registry request, the code read, the balance read and
  the four ERC-20 reads, \<open>isERC20\<close> is set and \<open>isERC721\<close> is not; the token information
  and the ERC-20 section are there when \<open>formatUnits\<close> returns, and when it throws there
  is no token information and the response carries the "unknown type" section.
\<close>

lemma erc20_reads_succeed:
  assumes "isAddress e a"
      and "getBytecode e (getAddress e a) = Inr (Some code)"
      and "code \<noteq> []" and "code \<noteq> ''0x''"
      and "getBalance e (getAddress e a) = Inr b"
      and "readString e (getAddress e a) Erc20Abi Name = Inr n"
      and "readString e (getAddress e a) Erc20Abi Symbol = Inr s"
      and "readUint e (getAddress e a) Erc20Abi Decimals = Inr d"
      and "readUint e (getAddress e a) Erc20Abi TotalSupply = Inr t"
  shows "get_contract_source e a =
           ([Fetch (apiUrl a), GetBytecode (getAddress e a), GetBalance (getAddress e a)]
              @ erc20_calls (getAddress e a),
            Inr (ContractReport (formatEther e b) (bytecodeSizeOf code)
                   (case formatUnits e t d of
                      Inl x \<Rightarrow> UnknownType
                    | Inr ts \<Rightarrow> Erc20Detected n s (Some d) (Some ts))
                   (source_section_of (sourceCodeData (fetch e (apiUrl a))))))"
    and "snd (analyze e a) =
           Inr \<lparr> contractInfo =
                   \<lparr> exists = True, isContract = True, balance = formatEther e b,
                     bytecodeSize = bytecodeSizeOf code, isERC20 = True, isERC721 = False,
                     tokenInfo =
                       (case formatUnits e t d of
                          Inl x \<Rightarrow> None
                        | Inr ts \<Rightarrow> Some \<lparr> name = n, symbol = s, decimals = Some d,
                                            totalSupply = Some ts \<rparr>),
                     transactionCount = 0 \<rparr>,
                 sourceCode = sourceCodeData (fetch e (apiUrl a)) \<rparr>"
proof -
  have hc: "hasCode (Some code)" using assms(3,4) by (simp add: hasCode_def)
  note cl = classify_erc20 [OF erc20_probe_reads [OF assms(6-9)]]
  note ci = contract_info_contract [OF assms(2) hc assms(5)]
  note an = analyze_valid [OF assms(1)]
  show "snd (analyze e a) =
           Inr \<lparr> contractInfo =
                   \<lparr> exists = True, isContract = True, balance = formatEther e b,
                     bytecodeSize = bytecodeSizeOf code, isERC20 = True, isERC721 = False,
                     tokenInfo =
                       (case formatUnits e t d of
                          Inl x \<Rightarrow> None
                        | Inr ts \<Rightarrow> Some \<lparr> name = n, symbol = s, decimals = Some d,
                                            totalSupply = Some ts \<rparr>),
                     transactionCount = 0 \<rparr>,
                 sourceCode = sourceCodeData (fetch e (apiUrl a)) \<rparr>"
    by (simp add: an ci cl)
  show "get_contract_source e a =
           ([Fetch (apiUrl a), GetBytecode (getAddress e a), GetBalance (getAddress e a)]
              @ erc20_calls (getAddress e a),
            Inr (ContractReport (formatEther e b) (bytecodeSizeOf code)
                   (case formatUnits e t d of
                      Inl x \<Rightarrow> UnknownType
                    | Inr ts \<Rightarrow> Erc20Detected n s (Some d) (Some ts))
                   (source_section_of (sourceCodeData (fetch e (apiUrl a))))))"
    by (cases "formatUnits e t d")
       (simp_all add: get_contract_source_eq an ci cl build_response_def token_section_of_def)
qed

text \<open>
  Claim C2 says that a contract satisfying both candidates is reported as the ERC-20
  token. The handler sets \<open>isERC20\<close> before it formats the total supply, so on the
  contract below, whose four ERC-20 reads succeed, whose \<open>decimals()\<close> is \<open>2^32\<close> and
  whose \<open>supportsInterface(0x80ac58cd)\<close> would answer true, formatting throws: the
  ERC-721 probe is skipped because the flag is set, no token information is stored, and
  the response names no token at all but an unknown type.
\<close>

theorem fungible_flag_set_before_format:
  "readBool oversized_decimals_env sample_address Erc721Abi (SupportsInterface ''0x80ac58cd'')
     = Inr True
   \<and> readString oversized_decimals_env sample_address Erc20Abi Name = Inr ''Token''
   \<and> readString oversized_decimals_env sample_address Erc20Abi Symbol = Inr ''TKN''
   \<and> readUint oversized_decimals_env sample_address Erc20Abi Decimals = Inr 4294967296
   \<and> readUint oversized_decimals_env sample_address Erc20Abi TotalSupply = Inr 1000000
   \<and> get_contract_source oversized_decimals_env sample_address =
       ([Fetch (apiUrl sample_address), GetBytecode sample_address, GetBalance sample_address,
         ReadContract sample_address Erc20Abi Name, ReadContract sample_address Erc20Abi Symbol,
         ReadContract sample_address Erc20Abi Decimals,
         ReadContract sample_address Erc20Abi TotalSupply],
        Inr (ContractReport ''5'' 2 UnknownType SourceNotVerified))
   \<and> snd (analyze oversized_decimals_env sample_address) =
       Inr \<lparr> contractInfo =
               \<lparr> exists = True, isContract = True, balance = ''5'', bytecodeSize = 2,
                 isERC20 = True, isERC721 = False, tokenInfo = None,
                 transactionCount = 0 \<rparr>,
             sourceCode = None \<rparr>"
proof -
  have g: "getAddress oversized_decimals_env sample_address = sample_address"
    by (simp add: oversized_decimals_env_def both_env_def unknown_env_def eoa_env_def)
  have v: "isAddress oversized_decimals_env sample_address"
    by (simp add: oversized_decimals_env_def sample_env_facts sample_valid)
  have h: "getBytecode oversized_decimals_env (getAddress oversized_decimals_env sample_address)
             = Inr (Some ''0x6080'')"
      "''0x6080'' \<noteq> []" "''0x6080'' \<noteq> ''0x''"
      "getBalance oversized_decimals_env (getAddress oversized_decimals_env sample_address)
         = Inr 5000000000000000000"
      "readString oversized_decimals_env (getAddress oversized_decimals_env sample_address)
         Erc20Abi Name = Inr ''Token''"
      "readString oversized_decimals_env (getAddress oversized_decimals_env sample_address)
         Erc20Abi Symbol = Inr ''TKN''"
      "readUint oversized_decimals_env (getAddress oversized_decimals_env sample_address)
         Erc20Abi Decimals = Inr 4294967296"
      "readUint oversized_decimals_env (getAddress oversized_decimals_env sample_address)
         Erc20Abi TotalSupply = Inr 1000000"
    by (simp_all add: oversized_decimals_env_def both_env_def unknown_env_def eoa_env_def)
  have r: "readBool oversized_decimals_env sample_address Erc721Abi
             (SupportsInterface ''0x80ac58cd'') = Inr True"
    by (simp add: oversized_decimals_env_def both_env_def unknown_env_def eoa_env_def)
  have f: "formatEther oversized_decimals_env 5000000000000000000 = ''5''"
      "formatUnits oversized_decimals_env 1000000 4294967296 = Inl ''Invalid string length''"
      "fetch oversized_decimals_env (apiUrl sample_address) = FetchRejected"
      "bytecodeSizeOf ''0x6080'' = 2"
    by (simp_all add: oversized_decimals_env_def both_env_def unknown_env_def eoa_env_def
          bytecodeSizeOf_def sample_formats sample_formatUnits_results)
  from erc20_reads_succeed [OF v h] r h show ?thesis
    by (simp add: f g erc20_calls_def source_section_of_def sourceCodeData_def)
qed

text \<open>
  Claim C3. An address string that \<open>isAddress\<close> rejects makes the handler answer with
  the error "Invalid contract address format" with no collaborator call made: neither the
  registry request nor any chain read. Which strings are rejected is decided by viem's
  \<open>isAddress\<close>, a collaborator here.
\<close>

theorem invalid_address_fails_before_any_call:
  assumes "\<not> isAddress e a"
  shows "get_contract_source e a = ([], Inl ''Invalid contract address format'')
       \<and> analyze e a = ([], Inl ''Invalid contract address format'')"
  using assms by (simp add: get_contract_source_def analyze_def invalid_address_msg_def)

theorem invalid_address_fails_before_any_call_witness:
  "\<not> isAddress both_env ''0x742d35cc'' 
   \<and> \<not> isAddress both_env ''0x742d35cc6634c0532925a3b844bc9d24e013d7zz''
   \<and> get_contract_source both_env ''0x742d35cc'' = ([], Inl ''Invalid contract address format'')
   \<and> get_contract_source both_env ''0x742d35cc6634c0532925a3b844bc9d24e013d7zz''
       = ([], Inl ''Invalid contract address format'')"
proof -
  have a: "\<not> isAddress both_env ''0x742d35cc''"
    by (simp add: sample_env_facts sample_isAddress_def)
  have b: "\<not> isAddress both_env ''0x742d35cc6634c0532925a3b844bc9d24e013d7zz''"
    by (simp add: sample_env_facts sample_isAddress_def is_hex_digit_def)
  from invalid_address_fails_before_any_call [OF a] invalid_address_fails_before_any_call [OF b]
    a b
  show ?thesis by simp
qed

lemma sourceCodeData_verified:
  "sourceCodeData (FetchResponse True (JsonValue verified_body)) = Some verified_record"
  by (simp add: sourceCodeData_def select_source_def verified_body_def verified_record_def)

lemma registry_failure_None:
  "registry_failure out \<Longrightarrow> sourceCodeData out = None"
proof (induction rule: registry_failure.induct)
  case transport_failure
  show ?case by (simp add: sourceCodeData_def)
next
  case (http_status body)
  show ?case by (simp add: sourceCodeData_def)
next
  case (api_status kvs)
  then show ?case
    by (auto simp: sourceCodeData_def select_source_def split: option.splits sum.splits)
next
  case (empty_result kvs)
  then show ?case
    by (auto simp: sourceCodeData_def select_source_def type_error_def split: option.splits sum.splits)
next
  case (no_source kvs r rest)
  then show ?case
    by (auto simp: sourceCodeData_def select_source_def split: option.splits sum.splits)
qed

text \<open>
  Claim C5. For a valid address, when the registry request is rejected, answers with a
  non-success HTTP status, carries a status field other than \<open>"1"\<close>, carries a success
  status with an empty result list, or carries a first result whose source-code field is
  absent or empty, \<open>sourceCodeData\<close> stays \<open>null\<close> and nothing is thrown: whatever
  step 2 produced is the analysis, with no source code; a contract's response carries
  the "source code not verified" section beside its balance, size and token section;
  the analysis exists whenever the code read and the balance read succeed; and the
  on-chain part of the analysis is the same for every registry outcome.
\<close>

theorem registry_failure_leaves_report_unverified:
  assumes "isAddress e a" and "registry_failure (fetch e (apiUrl a))"
  shows "sourceCodeData (fetch e (apiUrl a)) = None
       \<and> (\<forall>c. snd (contract_info e a) = Inr c \<longrightarrow>
              snd (analyze e a) = Inr \<lparr> contractInfo = c, sourceCode = None \<rparr>
            \<and> snd (get_contract_source e a) = Inr (build_response c None)
            \<and> (isContract c \<longrightarrow>
                 snd (get_contract_source e a) =
                   Inr (ContractReport (balance c) (bytecodeSize c) (token_section_of c)
                          SourceNotVerified)))
       \<and> (\<forall>code b. getBytecode e (getAddress e a) = Inr code
              \<and> getBalance e (getAddress e a) = Inr b \<longrightarrow>
              (\<exists>c. snd (analyze e a) = Inr \<lparr> contractInfo = c, sourceCode = None \<rparr>))
       \<and> (\<forall>f. map_sum (\<lambda>x. x) contractInfo (snd (analyze (e \<lparr> fetch := f \<rparr>) a))
              = map_sum (\<lambda>x. x) contractInfo (snd (analyze e a)))"
proof -
  note an = analyze_valid [OF assms(1)]
  have n: "sourceCodeData (fetch e (apiUrl a)) = None"
    by (rule registry_failure_None [OF assms(2)])
  have r: "\<forall>c. snd (contract_info e a) = Inr c \<longrightarrow>
              snd (analyze e a) = Inr \<lparr> contractInfo = c, sourceCode = None \<rparr>
            \<and> snd (get_contract_source e a) = Inr (build_response c None)
            \<and> (isContract c \<longrightarrow>
                 snd (get_contract_source e a) =
                   Inr (ContractReport (balance c) (bytecodeSize c) (token_section_of c)
                          SourceNotVerified))"
    by (simp add: get_contract_source_eq an n build_response_def source_section_of_def)
  have p: "\<forall>code b. getBytecode e (getAddress e a) = Inr code
              \<and> getBalance e (getAddress e a) = Inr b \<longrightarrow>
              (\<exists>c. snd (analyze e a) = Inr \<lparr> contractInfo = c, sourceCode = None \<rparr>)"
  proof (intro allI impI)
    fix code b
    assume h: "getBytecode e (getAddress e a) = Inr code
              \<and> getBalance e (getAddress e a) = Inr b"
    then obtain c where "snd (contract_info e a) = Inr c"
      using contract_info_succeeds by blast
    then show "\<exists>c. snd (analyze e a) = Inr \<lparr> contractInfo = c, sourceCode = None \<rparr>"
      by (simp add: an n)
  qed
  have i: "\<forall>f. map_sum (\<lambda>x. x) contractInfo (snd (analyze (e \<lparr> fetch := f \<rparr>) a))
              = map_sum (\<lambda>x. x) contractInfo (snd (analyze e a))"
  proof
    fix f
    have v: "isAddress (e \<lparr> fetch := f \<rparr>) a" using assms(1) by simp
    show "map_sum (\<lambda>x. x) contractInfo (snd (analyze (e \<lparr> fetch := f \<rparr>) a))
              = map_sum (\<lambda>x. x) contractInfo (snd (analyze e a))"
      by (cases "snd (contract_info e a)")
         (simp_all add: an analyze_valid [OF v] contract_info_fetch_irrelevant)
  qed
  from n r p i show ?thesis by blast
qed

theorem registry_failure_leaves_report_unverified_witness:
  "registry_failure (fetch empty_result_env (apiUrl sample_address))
   \<and> snd (get_contract_source empty_result_env sample_address) =
       Inr (ContractReport ''5'' 2 (Erc20Detected ''Token'' ''TKN'' (Some 6) (Some ''1''))
              SourceNotVerified)"
proof -
  have v: "isAddress empty_result_env sample_address"
    by (simp add: empty_result_env_def sample_env_facts sample_valid)
  have rf: "registry_failure (fetch empty_result_env (apiUrl sample_address))"
    by (simp add: empty_result_env_def empty_result_body_def registry_failure.empty_result)
  have h: "getBytecode empty_result_env (getAddress empty_result_env sample_address) = Inr (Some ''0x6080'')"
      "getBalance empty_result_env (getAddress empty_result_env sample_address) = Inr 5000000000000000000"
      "readString empty_result_env (getAddress empty_result_env sample_address) Erc20Abi Name = Inr ''Token''"
      "readString empty_result_env (getAddress empty_result_env sample_address) Erc20Abi Symbol = Inr ''TKN''"
      "readUint empty_result_env (getAddress empty_result_env sample_address) Erc20Abi Decimals = Inr 6"
      "readUint empty_result_env (getAddress empty_result_env sample_address) Erc20Abi TotalSupply = Inr 1000000"
    by (simp_all add: empty_result_env_def both_env_def unknown_env_def eoa_env_def)
  have hc: "hasCode (Some ''0x6080'')" by (simp add: hasCode_def)
  have f: "formatEther empty_result_env 5000000000000000000 = ''5''"
      "formatUnits empty_result_env 1000000 6 = Inr ''1''"
      "bytecodeSizeOf ''0x6080'' = 2"
    by (simp_all add: empty_result_env_def both_env_def unknown_env_def eoa_env_def
          bytecodeSizeOf_def sample_formats sample_formatUnits_results)
  note cl = classify_erc20 [OF erc20_probe_reads [OF h(3-6)]]
  have ci: "snd (contract_info empty_result_env sample_address) =
      Inr \<lparr> exists = True, isContract = True, balance = ''5'', bytecodeSize = 2,
            isERC20 = True, isERC721 = False,
            tokenInfo = Some \<lparr> name = ''Token'', symbol = ''TKN'', decimals = Some 6,
                               totalSupply = Some ''1'' \<rparr>,
            transactionCount = 0 \<rparr>"
    by (simp add: contract_info_contract [OF h(1) hc h(2)] cl f)
  from registry_failure_leaves_report_unverified [OF v rf] ci rf show ?thesis
    by (simp add: token_section_of_def build_response_def source_section_of_def)
qed

text \<open>
  Claim C4. For a contract whose code read and balance read succeed, the request
  completes with a response whatever the outcomes of the probe reads are: no failure of
  a read leaves the probe. All four ERC-20 reads are issued. When some ERC-20 read fails
  and \<open>supportsInterface(0x80ac58cd)\<close> fails or answers false, no candidate matches:
  neither flag is set, there is no token information, and the response carries the
  "unknown type" section.
\<close>

theorem probe_failures_stay_inside_the_probe:
  assumes "isAddress e a"
      and "getBytecode e (getAddress e a) = Inr (Some code)"
      and "code \<noteq> []" and "code \<noteq> ''0x''"
      and "getBalance e (getAddress e a) = Inr b"
  shows "(\<exists>an. snd (analyze e a) = Inr an)
       \<and> (\<exists>r. snd (get_contract_source e a) = Inr r)
       \<and> set (erc20_calls (getAddress e a)) \<subseteq> set (fst (analyze e a))
       \<and> ((isl (readString e (getAddress e a) Erc20Abi Name)
            \<or> isl (readString e (getAddress e a) Erc20Abi Symbol)
            \<or> isl (readUint e (getAddress e a) Erc20Abi Decimals)
            \<or> isl (readUint e (getAddress e a) Erc20Abi TotalSupply))
          \<and> readBool e (getAddress e a) Erc721Abi (SupportsInterface ''0x80ac58cd'') \<noteq> Inr True
          \<longrightarrow> (\<exists>an. snd (analyze e a) = Inr an
                  \<and> \<not> isERC20 (contractInfo an) \<and> \<not> isERC721 (contractInfo an)
                  \<and> tokenInfo (contractInfo an) = None)
              \<and> snd (get_contract_source e a) =
                  Inr (ContractReport (formatEther e b) (bytecodeSizeOf code) UnknownType
                         (source_section_of (sourceCodeData (fetch e (apiUrl a))))))"
proof -
  have hc: "hasCode (Some code)" using assms(3,4) by (simp add: hasCode_def)
  note ci = contract_info_contract [OF assms(2) hc assms(5)]
  note an = analyze_valid [OF assms(1)]
  have fin: "\<exists>an. snd (analyze e a) = Inr an" by (simp add: an ci)
  then have rep: "\<exists>r. snd (get_contract_source e a) = Inr r"
    by (auto simp: get_contract_source_eq)
  have calls: "set (erc20_calls (getAddress e a)) \<subseteq> set (fst (classify e (getAddress e a)))"
    by (auto simp: classify_def split: prod.splits)
  then have tr: "set (erc20_calls (getAddress e a)) \<subseteq> set (fst (analyze e a))"
    by (auto simp: an ci)
  have unk: "snd (analyze e a) =
        Inr \<lparr> contractInfo =
                \<lparr> exists = True, isContract = True, balance = formatEther e b,
                  bytecodeSize = bytecodeSizeOf code, isERC20 = False, isERC721 = False,
                  tokenInfo = None, transactionCount = 0 \<rparr>,
              sourceCode = sourceCodeData (fetch e (apiUrl a)) \<rparr>"
    if f20: "isl (readString e (getAddress e a) Erc20Abi Name)
            \<or> isl (readString e (getAddress e a) Erc20Abi Symbol)
            \<or> isl (readUint e (getAddress e a) Erc20Abi Decimals)
            \<or> isl (readUint e (getAddress e a) Erc20Abi TotalSupply)"
      and f721: "readBool e (getAddress e a) Erc721Abi (SupportsInterface ''0x80ac58cd'') \<noteq> Inr True"
  proof -
    from f20 have p: "erc20_probe e (getAddress e a) = (False, None)"
      by (simp add: erc20_probe_failed_iff)
    show ?thesis
      by (simp add: an ci classify_not_erc20 [OF p] erc721_probe_other [OF f721])
  qed
  have "snd (get_contract_source e a) =
                  Inr (ContractReport (formatEther e b) (bytecodeSizeOf code) UnknownType
                         (source_section_of (sourceCodeData (fetch e (apiUrl a)))))"
    if f20: "isl (readString e (getAddress e a) Erc20Abi Name)
            \<or> isl (readString e (getAddress e a) Erc20Abi Symbol)
            \<or> isl (readUint e (getAddress e a) Erc20Abi Decimals)
            \<or> isl (readUint e (getAddress e a) Erc20Abi TotalSupply)"
      and f721: "readBool e (getAddress e a) Erc721Abi (SupportsInterface ''0x80ac58cd'') \<noteq> Inr True"
    by (simp add: get_contract_source_eq unk [OF f20 f721] build_response_def token_section_of_def)
  with unk fin rep tr show ?thesis by simp
qed

theorem probe_failures_stay_inside_the_probe_witness:
  "isl (readString unknown_env sample_address Erc20Abi Name)
   \<and> readBool unknown_env sample_address Erc721Abi (SupportsInterface ''0x80ac58cd'')
        = Inl ''execution reverted''
   \<and> snd (get_contract_source unknown_env sample_address) =
       Inr (ContractReport ''5'' 2 UnknownType SourceNotVerified)"
proof -
  have v: "isAddress unknown_env sample_address"
    by (simp add: sample_env_facts sample_valid)
  have h: "getBytecode unknown_env (getAddress unknown_env sample_address) = Inr (Some ''0x6080'')"
      "''0x6080'' \<noteq> []" "''0x6080'' \<noteq> ''0x''"
      "getBalance unknown_env (getAddress unknown_env sample_address) = Inr 5000000000000000000"
    by (simp_all add: unknown_env_def eoa_env_def)
  have r: "readString unknown_env sample_address Erc20Abi Name = Inl ''execution reverted''"
      "readBool unknown_env sample_address Erc721Abi (SupportsInterface ''0x80ac58cd'')
         = Inl ''execution reverted''"
    by (simp_all add: unknown_env_def eoa_env_def)
  have f: "formatEther unknown_env 5000000000000000000 = ''5''"
      "fetch unknown_env (apiUrl sample_address) = FetchRejected"
      "bytecodeSizeOf ''0x6080'' = 2"
    by (simp_all add: unknown_env_def eoa_env_def bytecodeSizeOf_def sample_formats)
  from probe_failures_stay_inside_the_probe [OF v h] r show ?thesis
    by (simp add: sample_env_facts f source_section_of_def sourceCodeData_def)
qed

text \<open>
  Claim C10. For a contract on which some ERC-20 read fails (so it is not classified as
  fungible), \<open>isERC721\<close> is set exactly when \<open>supportsInterface(0x80ac58cd)\<close> succeeds
  with true. In that case the response carries the ERC-721 section whatever the \<open>name\<close>
  and \<open>symbol\<close> reads do, with "Unknown" and "UNKNOWN" in place of a failed read.
  Otherwise (the call fails or answers false) there is no token information and the
  response carries the "unknown type" section.
\<close>

theorem non_fungible_iff_supports_interface:
  assumes "isAddress e a"
      and "getBytecode e (getAddress e a) = Inr (Some code)"
      and "code \<noteq> []" and "code \<noteq> ''0x''"
      and "getBalance e (getAddress e a) = Inr b"
      and "isl (readString e (getAddress e a) Erc20Abi Name)
           \<or> isl (readString e (getAddress e a) Erc20Abi Symbol)
           \<or> isl (readUint e (getAddress e a) Erc20Abi Decimals)
           \<or> isl (readUint e (getAddress e a) Erc20Abi TotalSupply)"
  shows "\<exists>an. snd (analyze e a) = Inr an
           \<and> \<not> isERC20 (contractInfo an)
           \<and> (isERC721 (contractInfo an) \<longleftrightarrow>
                readBool e (getAddress e a) Erc721Abi (SupportsInterface ''0x80ac58cd'') = Inr True)
           \<and> (readBool e (getAddress e a) Erc721Abi (SupportsInterface ''0x80ac58cd'') = Inr True
                \<longrightarrow> token_section_of (contractInfo an) =
                      Erc721Detected
                        (case readString e (getAddress e a) Erc721Abi Name of
                           Inl x \<Rightarrow> ''Unknown'' | Inr v \<Rightarrow> v)
                        (case readString e (getAddress e a) Erc721Abi Symbol of
                           Inl x \<Rightarrow> ''UNKNOWN'' | Inr v \<Rightarrow> v))
           \<and> (readBool e (getAddress e a) Erc721Abi (SupportsInterface ''0x80ac58cd'') \<noteq> Inr True
                \<longrightarrow> tokenInfo (contractInfo an) = None
                  \<and> token_section_of (contractInfo an) = UnknownType)
           \<and> snd (get_contract_source e a) =
               Inr (ContractReport (formatEther e b) (bytecodeSizeOf code)
                      (token_section_of (contractInfo an))
                      (source_section_of (sourceCodeData (fetch e (apiUrl a)))))"
proof -
  have hc: "hasCode (Some code)" using assms(3,4) by (simp add: hasCode_def)
  note ci = contract_info_contract [OF assms(2) hc assms(5)]
  note an = analyze_valid [OF assms(1)]
  from assms(6) have p: "erc20_probe e (getAddress e a) = (False, None)"
    by (simp add: erc20_probe_failed_iff)
  note cl = classify_not_erc20 [OF p]
  show ?thesis
  proof (cases "readBool e (getAddress e a) Erc721Abi (SupportsInterface ''0x80ac58cd'') = Inr True")
    case True
    show ?thesis
      using True
      by (simp add: get_contract_source_eq an ci cl erc721_probe_true [OF True]
            build_response_def token_section_of_def)
  next
    case False
    show ?thesis
      using False
      by (simp add: get_contract_source_eq an ci cl erc721_probe_other [OF False]
            build_response_def token_section_of_def)
  qed
qed

theorem non_fungible_iff_supports_interface_witness:
  "isl (readString nft_env sample_address Erc20Abi Name)
   \<and> isl (readString nft_env sample_address Erc721Abi Name)
   \<and> readBool nft_env sample_address Erc721Abi (SupportsInterface ''0x80ac58cd'') = Inr True
   \<and> snd (get_contract_source nft_env sample_address) =
       Inr (ContractReport ''5'' 2 (Erc721Detected ''Unknown'' ''UNKNOWN'') SourceNotVerified)"
proof -
  have v: "isAddress nft_env sample_address"
    by (simp add: sample_env_facts sample_valid)
  have h: "getBytecode nft_env (getAddress nft_env sample_address) = Inr (Some ''0x6080'')"
      "''0x6080'' \<noteq> []" "''0x6080'' \<noteq> ''0x''"
      "getBalance nft_env (getAddress nft_env sample_address) = Inr 5000000000000000000"
      "isl (readString nft_env (getAddress nft_env sample_address) Erc20Abi Name)
           \<or> isl (readString nft_env (getAddress nft_env sample_address) Erc20Abi Symbol)
           \<or> isl (readUint nft_env (getAddress nft_env sample_address) Erc20Abi Decimals)
           \<or> isl (readUint nft_env (getAddress nft_env sample_address) Erc20Abi TotalSupply)"
    by (simp_all add: nft_env_def unknown_env_def eoa_env_def)
  have r: "readString nft_env sample_address Erc20Abi Name = Inl ''execution reverted''"
      "readString nft_env sample_address Erc721Abi Name = Inl ''execution reverted''"
      "readString nft_env sample_address Erc721Abi Symbol = Inl ''execution reverted''"
      "readBool nft_env sample_address Erc721Abi (SupportsInterface ''0x80ac58cd'') = Inr True"
    by (simp_all add: nft_env_def unknown_env_def eoa_env_def)
  have f: "formatEther nft_env 5000000000000000000 = ''5''"
      "fetch nft_env (apiUrl sample_address) = FetchRejected"
      "bytecodeSizeOf ''0x6080'' = 2"
    by (simp_all add: nft_env_def unknown_env_def eoa_env_def bytecodeSizeOf_def sample_formats)
  from non_fungible_iff_supports_interface [OF v h] r show ?thesis
    by (auto simp: sample_env_facts f source_section_of_def sourceCodeData_def)
qed

lemma classify_trace_reads:
  "\<forall>c \<in> set (fst (classify e a)). \<not> isGetBytecode c \<and> \<not> isFetch c"
  by (auto simp: classify_def erc20_calls_def erc721_probe_def split: sum.splits prod.splits)

lemma filter_none: "\<forall>c \<in> set cs. \<not> P c \<Longrightarrow> filter P cs = []"
  by (induction cs) auto

lemma contract_info_trace:
  "\<exists>cs. fst (contract_info e a) = GetBytecode (getAddress e a) # cs
        \<and> (\<forall>c \<in> set cs. \<not> isGetBytecode c \<and> \<not> isFetch c)"
proof (cases "getBytecode e (getAddress e a)")
  case (Inl x)
  then show ?thesis by (simp add: contract_info_def)
next
  case (Inr code)
  show ?thesis
  proof (cases "hasCode code")
    case False
    show ?thesis by (simp add: contract_info_eoa [OF Inr False])
  next
    case True
    then obtain s where s: "code = Some s" by (auto simp: hasCode_iff)
    show ?thesis
    proof (cases "getBalance e (getAddress e a)")
      case (Inl x)
      with Inr True show ?thesis by (simp add: contract_info_def Let_def)
    next
      case b: (Inr b)
      from classify_trace_reads [of e "getAddress e a"] show ?thesis
        by (simp add: contract_info_contract [OF Inr [unfolded s] True [unfolded s] b])
    qed
  qed
qed

lemma bytecodeSizeOf_hex: "bytecodeSizeOf (''0x'' @ ds) = of_nat (length ds) / 2"
  by (simp add: bytecodeSizeOf_def)

text \<open>
  Claim C7, as the code has it. The handler does not wait for the account kind before it
  asks the registry: step 1 of the handler is the registry request, step 2 the chain
  reads. For every valid address the first collaborator call is the registry request and
  the second the code read, and neither is repeated. For an externally owned account
  whose balance read succeeds, these two calls and the balance read are all the calls
  made, and the response is the account text with the balance, with no classification
  and no verification section: the registry's answer is not used. For a contract the
  response carries the section built from the registry's answer.
\<close>

theorem registry_lookup_precedes_kind_resolution:
  assumes "isAddress e a"
  shows "(\<exists>cs. fst (get_contract_source e a) =
                 Fetch (apiUrl a) # GetBytecode (getAddress e a) # cs
              \<and> (\<forall>c \<in> set cs. \<not> isFetch c \<and> \<not> isGetBytecode c))
       \<and> (\<forall>code b. getBytecode e (getAddress e a) = Inr code
              \<and> (code = None \<or> code = Some [] \<or> code = Some ''0x'')
              \<and> getBalance e (getAddress e a) = Inr b \<longrightarrow>
              get_contract_source e a =
                ([Fetch (apiUrl a), GetBytecode (getAddress e a), GetBalance (getAddress e a)],
                 Inr (EoaReport (formatEther e b))))
       \<and> (\<forall>c. snd (contract_info e a) = Inr c \<and> isContract c \<longrightarrow>
              snd (get_contract_source e a) =
                Inr (ContractReport (balance c) (bytecodeSize c) (token_section_of c)
                       (source_section_of (sourceCodeData (fetch e (apiUrl a))))))"
proof -
  note an = analyze_valid [OF assms]
  obtain cs where cs: "fst (contract_info e a) = GetBytecode (getAddress e a) # cs"
      "\<forall>c \<in> set cs. \<not> isGetBytecode c \<and> \<not> isFetch c"
    using contract_info_trace by blast
  have t: "\<exists>cs. fst (get_contract_source e a) =
                 Fetch (apiUrl a) # GetBytecode (getAddress e a) # cs
              \<and> (\<forall>c \<in> set cs. \<not> isFetch c \<and> \<not> isGetBytecode c)"
    using cs by (simp add: get_contract_source_eq an)
  have eoa: "get_contract_source e a =
                ([Fetch (apiUrl a), GetBytecode (getAddress e a), GetBalance (getAddress e a)],
                 Inr (EoaReport (formatEther e b)))"
    if "getBytecode e (getAddress e a) = Inr code"
      and "code = None \<or> code = Some [] \<or> code = Some ''0x''"
      and "getBalance e (getAddress e a) = Inr b" for code b
  proof -
    from that(2) have nc: "\<not> hasCode code" by (auto simp: hasCode_def)
    show ?thesis
      by (simp add: get_contract_source_eq an contract_info_eoa [OF that(1) nc] that(3)
            build_response_def initialContractInfo_def)
  qed
  have con: "\<forall>c. snd (contract_info e a) = Inr c \<and> isContract c \<longrightarrow>
              snd (get_contract_source e a) =
                Inr (ContractReport (balance c) (bytecodeSize c) (token_section_of c)
                       (source_section_of (sourceCodeData (fetch e (apiUrl a)))))"
    by (simp add: get_contract_source_eq an build_response_def)
  from t eoa con show ?thesis by blast
qed

theorem registry_lookup_precedes_kind_resolution_witness:
  "isAddress verified_eoa_env sample_address
   \<and> sourceCodeData (fetch verified_eoa_env (apiUrl sample_address)) = Some verified_record
   \<and> get_contract_source verified_eoa_env sample_address =
       ([Fetch (apiUrl sample_address), GetBytecode sample_address, GetBalance sample_address],
        Inr (EoaReport ''5''))"
proof -
  have v: "isAddress verified_eoa_env sample_address"
    by (simp add: verified_eoa_env_def sample_env_facts sample_valid)
  have h: "getBytecode verified_eoa_env (getAddress verified_eoa_env sample_address) = Inr None
         \<and> (None = None \<or> None = Some [] \<or> None = Some ''0x'')
         \<and> getBalance verified_eoa_env (getAddress verified_eoa_env sample_address)
             = Inr 5000000000000000000"
    by (simp add: verified_eoa_env_def eoa_env_def)
  have f: "formatEther verified_eoa_env 5000000000000000000 = ''5''"
      "getAddress verified_eoa_env sample_address = sample_address"
    by (simp_all add: verified_eoa_env_def eoa_env_def sample_formats)
  have s: "sourceCodeData (fetch verified_eoa_env (apiUrl sample_address)) = Some verified_record"
    by (simp add: verified_eoa_env_def sourceCodeData_verified)
  from registry_lookup_precedes_kind_resolution
         [OF v, THEN conjunct2, THEN conjunct1, rule_format, OF h]
  show ?thesis using v s by (simp add: f)
qed

text \<open>
  Claim C7 as stated, that the registry lookup is never performed for an externally owned
  account and never before the kind is resolved, fails on the sample account: its code
  is absent, and the registry request is the first call of the request.
\<close>

theorem registry_lookup_for_eoa_counterexample:
  "get_contract_source eoa_env sample_address =
     ([Fetch (apiUrl sample_address), GetBytecode sample_address, GetBalance sample_address],
      Inr (EoaReport ''5''))"
proof -
  have v: "isAddress eoa_env sample_address"
    by (simp add: sample_env_facts sample_valid)
  have c: "getBytecode eoa_env (getAddress eoa_env sample_address) = Inr None"
    by (simp add: eoa_env_def)
  have nc: "\<not> hasCode None" by (simp add: hasCode_def)
  have b: "getBalance eoa_env sample_address = Inr 5000000000000000000"
      "formatEther eoa_env 5000000000000000000 = ''5''"
    by (simp_all add: eoa_env_def sample_formats)
  show ?thesis
    by (simp add: get_contract_source_eq analyze_valid [OF v] contract_info_eoa [OF c nc]
          sample_env_facts b build_response_def initialContractInfo_def)
qed

text \<open>
  Claim C8. For a valid address the deployed code is read exactly once. Absent or empty
  code gives \<open>isContract = false\<close> and \<open>bytecodeSize = 0\<close>; code \<open>0x\<close> followed by
  \<open>2n\<close> hex digits (\<open>n > 0\<close>) gives \<open>isContract = true\<close> and \<open>bytecodeSize = n\<close>,
  which is the size the response prints (the balance read succeeding in both cases).
\<close>

theorem kind_resolution_and_bytecode_size:
  assumes "isAddress e a"
  shows "filter isGetBytecode (fst (analyze e a)) = [GetBytecode (getAddress e a)]
       \<and> (\<forall>code b. getBytecode e (getAddress e a) = Inr code
              \<and> (code = None \<or> code = Some [] \<or> code = Some ''0x'')
              \<and> getBalance e (getAddress e a) = Inr b \<longrightarrow>
              (\<exists>an. snd (analyze e a) = Inr an
                 \<and> \<not> isContract (contractInfo an) \<and> bytecodeSize (contractInfo an) = 0))
       \<and> (\<forall>ds n b. getBytecode e (getAddress e a) = Inr (Some (''0x'' @ ds))
              \<and> ds \<noteq> [] \<and> length ds = 2 * n
              \<and> getBalance e (getAddress e a) = Inr b \<longrightarrow>
              (\<exists>an. snd (analyze e a) = Inr an
                 \<and> isContract (contractInfo an)
                 \<and> bytecodeSize (contractInfo an) = of_nat n
                 \<and> snd (get_contract_source e a) =
                     Inr (ContractReport (formatEther e b) (of_nat n)
                            (token_section_of (contractInfo an))
                            (source_section_of (sourceCodeData (fetch e (apiUrl a)))))))"
proof -
  note an = analyze_valid [OF assms]
  obtain cs where cs: "fst (contract_info e a) = GetBytecode (getAddress e a) # cs"
      "\<forall>c \<in> set cs. \<not> isGetBytecode c \<and> \<not> isFetch c"
    using contract_info_trace by blast
  then have "filter isGetBytecode cs = []" by (simp add: filter_none)
  then have once: "filter isGetBytecode (fst (analyze e a)) = [GetBytecode (getAddress e a)]"
    by (simp add: an cs(1))
  have eoa: "\<exists>an. snd (analyze e a) = Inr an
                 \<and> \<not> isContract (contractInfo an) \<and> bytecodeSize (contractInfo an) = 0"
    if "getBytecode e (getAddress e a) = Inr code"
      and "code = None \<or> code = Some [] \<or> code = Some ''0x''"
      and "getBalance e (getAddress e a) = Inr b" for code b
  proof -
    from that(2) have nc: "\<not> hasCode code" by (auto simp: hasCode_def)
    show ?thesis
      by (simp add: an contract_info_eoa [OF that(1) nc] that(3) initialContractInfo_def)
  qed
  have con: "\<exists>an. snd (analyze e a) = Inr an
                 \<and> isContract (contractInfo an)
                 \<and> bytecodeSize (contractInfo an) = of_nat n
                 \<and> snd (get_contract_source e a) =
                     Inr (ContractReport (formatEther e b) (of_nat n)
                            (token_section_of (contractInfo an))
                            (source_section_of (sourceCodeData (fetch e (apiUrl a)))))"
    if g: "getBytecode e (getAddress e a) = Inr (Some (''0x'' @ ds))"
      and ne: "ds \<noteq> []" and len: "length ds = 2 * n"
      and b: "getBalance e (getAddress e a) = Inr b" for ds n b
  proof -
    from ne have hc: "hasCode (Some (''0x'' @ ds))" by (simp add: hasCode_def)
    from len bytecodeSizeOf_hex [of ds] have sz: "bytecodeSizeOf (''0x'' @ ds) = of_nat n"
      by simp
    show ?thesis
      using sz
      by (simp add: get_contract_source_eq an contract_info_contract [OF g hc b]
            build_response_def)
  qed
  from once eoa con show ?thesis by blast
qed

theorem kind_resolution_and_bytecode_size_witness:
  "isAddress unknown_env sample_address
   \<and> getBytecode unknown_env (getAddress unknown_env sample_address) = Inr (Some (''0x'' @ ''6080''))
   \<and> length ''6080'' = 2 * 2
   \<and> filter isGetBytecode (fst (analyze unknown_env sample_address)) = [GetBytecode sample_address]
   \<and> snd (get_contract_source unknown_env sample_address) =
       Inr (ContractReport ''5'' 2 UnknownType SourceNotVerified)"
proof -
  have v: "isAddress unknown_env sample_address"
    by (simp add: sample_env_facts sample_valid)
  have h: "getBytecode unknown_env (getAddress unknown_env sample_address) = Inr (Some (''0x'' @ ''6080''))
         \<and> ''6080'' \<noteq> [] \<and> length ''6080'' = 2 * 2
         \<and> getBalance unknown_env (getAddress unknown_env sample_address) = Inr 5000000000000000000"
    by (simp add: unknown_env_def eoa_env_def)
  have f: "formatEther unknown_env 5000000000000000000 = ''5''"
      "fetch unknown_env (apiUrl sample_address) = FetchRejected"
    by (simp_all add: unknown_env_def eoa_env_def sample_formats)
  have r: "readString unknown_env sample_address Erc20Abi Name = Inl ''execution reverted''"
      "readBool unknown_env sample_address Erc721Abi (SupportsInterface ''0x80ac58cd'')
         \<noteq> Inr True"
    by (simp_all add: unknown_env_def eoa_env_def)
  have p: "erc20_probe unknown_env sample_address = (False, None)"
    by (simp add: erc20_probe_failed_iff r(1))
  have hc: "hasCode (Some ''0x6080'')" by (simp add: hasCode_def)
  have ts: "\<And>an. snd (analyze unknown_env sample_address) = Inr an \<Longrightarrow>
              token_section_of (contractInfo an) = UnknownType"
    using v h
    by (auto simp: analyze_valid contract_info_contract [where s = "''0x6080''"] hc
          sample_env_facts classify_not_erc20 [OF p] erc721_probe_other [OF r(2)]
          token_section_of_def)
  note k = kind_resolution_and_bytecode_size [OF v]
  from k [THEN conjunct2, THEN conjunct2, rule_format, OF h] k [THEN conjunct1] v h ts
  show ?thesis
    by (auto simp: f sample_env_facts source_section_of_def sourceCodeData_def)
qed

text \<open>
  Claim C6, as the code has it. In \<open>get-contract-source\<close> the defaults belong to the
  ERC-721 candidate only: once \<open>supportsInterface(0x80ac58cd)\<close> answers true the contract
  is an ERC-721 token whatever \<open>name\<close> and \<open>symbol\<close> do, with "Unknown" and "UNKNOWN" in
  place of a failed read. The ERC-20 candidate has no best-effort read: \<open>isERC20\<close> is set
  exactly when \<open>name\<close>, \<open>symbol\<close>, \<open>decimals\<close> and \<open>totalSupply\<close> all succeed, and the
  decimals it reports are the ones read. The default 18 is in \<open>get-erc20-balance\<close>: once
  \<open>balanceOf\<close> succeeds, the name is \<open>name\<close> or "Unknown", the symbol \<open>symbol\<close> or
  "UNKNOWN", and the balance is formatted with \<open>decimals\<close> or 18; the result is produced
  when that formatting returns.
\<close>

theorem metadata_defaults_where_best_effort:
  "(isAddress e a
      \<and> getBytecode e (getAddress e a) = Inr (Some code) \<and> code \<noteq> [] \<and> code \<noteq> ''0x''
      \<and> getBalance e (getAddress e a) = Inr b
      \<and> (isl (readString e (getAddress e a) Erc20Abi Name)
           \<or> isl (readString e (getAddress e a) Erc20Abi Symbol)
           \<or> isl (readUint e (getAddress e a) Erc20Abi Decimals)
           \<or> isl (readUint e (getAddress e a) Erc20Abi TotalSupply))
      \<and> readBool e (getAddress e a) Erc721Abi (SupportsInterface ''0x80ac58cd'') = Inr True
    \<longrightarrow> (\<exists>an. snd (analyze e a) = Inr an
          \<and> isERC721 (contractInfo an)
          \<and> tokenInfo (contractInfo an) =
              Some \<lparr> name = (case readString e (getAddress e a) Erc721Abi Name of
                               Inl x \<Rightarrow> ''Unknown'' | Inr v \<Rightarrow> v),
                     symbol = (case readString e (getAddress e a) Erc721Abi Symbol of
                                 Inl x \<Rightarrow> ''UNKNOWN'' | Inr v \<Rightarrow> v),
                     decimals = None, totalSupply = None \<rparr>
          \<and> token_section_of (contractInfo an) =
              Erc721Detected
                (case readString e (getAddress e a) Erc721Abi Name of
                   Inl x \<Rightarrow> ''Unknown'' | Inr v \<Rightarrow> v)
                (case readString e (getAddress e a) Erc721Abi Symbol of
                   Inl x \<Rightarrow> ''UNKNOWN'' | Inr v \<Rightarrow> v)))
   \<and> (isAddress e a
      \<and> getBytecode e (getAddress e a) = Inr (Some code) \<and> code \<noteq> [] \<and> code \<noteq> ''0x''
      \<and> getBalance e (getAddress e a) = Inr b
    \<longrightarrow> (\<exists>an. snd (analyze e a) = Inr an
          \<and> (isERC20 (contractInfo an) \<longleftrightarrow>
               (\<exists>n s d ts. readString e (getAddress e a) Erc20Abi Name = Inr n
                  \<and> readString e (getAddress e a) Erc20Abi Symbol = Inr s
                  \<and> readUint e (getAddress e a) Erc20Abi Decimals = Inr d
                  \<and> readUint e (getAddress e a) Erc20Abi TotalSupply = Inr ts))
          \<and> (\<forall>ti. isERC20 (contractInfo an) \<and> tokenInfo (contractInfo an) = Some ti
                \<longrightarrow> readUint e (getAddress e a) Erc20Abi Decimals = Inr (the (decimals ti)))))
   \<and> (isAddress e w \<and> isAddress e t
      \<and> readUint e (getAddress e t) BalanceErc20Abi (BalanceOf (getAddress e w)) = Inr v
      \<and> formatUnits e v
           (case readUint e (getAddress e t) BalanceErc20Abi Decimals of
              Inl x \<Rightarrow> 18 | Inr d \<Rightarrow> d) = Inr fb
    \<longrightarrow> get_erc20_balance e w t =
          Inr \<lparr> tokenName =
                  (case readString e (getAddress e t) BalanceErc20Abi Name of
                     Inl x \<Rightarrow> ''Unknown'' | Inr n \<Rightarrow> n),
                tokenSymbol =
                  (case readString e (getAddress e t) BalanceErc20Abi Symbol of
                     Inl x \<Rightarrow> ''UNKNOWN'' | Inr n \<Rightarrow> n),
                formattedBalance = fb, tokenAddressShown = t \<rparr>)"
proof (intro conjI impI)
  assume h: "isAddress e a
      \<and> getBytecode e (getAddress e a) = Inr (Some code) \<and> code \<noteq> [] \<and> code \<noteq> ''0x''
      \<and> getBalance e (getAddress e a) = Inr b
      \<and> (isl (readString e (getAddress e a) Erc20Abi Name)
           \<or> isl (readString e (getAddress e a) Erc20Abi Symbol)
           \<or> isl (readUint e (getAddress e a) Erc20Abi Decimals)
           \<or> isl (readUint e (getAddress e a) Erc20Abi TotalSupply))
      \<and> readBool e (getAddress e a) Erc721Abi (SupportsInterface ''0x80ac58cd'') = Inr True"
  then have v: "isAddress e a" and g: "getBytecode e (getAddress e a) = Inr (Some code)"
    and hc: "hasCode (Some code)" and bal: "getBalance e (getAddress e a) = Inr b"
    and p: "erc20_probe e (getAddress e a) = (False, None)"
    and si: "readBool e (getAddress e a) Erc721Abi (SupportsInterface ''0x80ac58cd'') = Inr True"
    by (simp_all add: hasCode_def erc20_probe_failed_iff)
  show "\<exists>an. snd (analyze e a) = Inr an
          \<and> isERC721 (contractInfo an)
          \<and> tokenInfo (contractInfo an) =
              Some \<lparr> name = (case readString e (getAddress e a) Erc721Abi Name of
                               Inl x \<Rightarrow> ''Unknown'' | Inr v \<Rightarrow> v),
                     symbol = (case readString e (getAddress e a) Erc721Abi Symbol of
                                 Inl x \<Rightarrow> ''UNKNOWN'' | Inr v \<Rightarrow> v),
                     decimals = None, totalSupply = None \<rparr>
          \<and> token_section_of (contractInfo an) =
              Erc721Detected
                (case readString e (getAddress e a) Erc721Abi Name of
                   Inl x \<Rightarrow> ''Unknown'' | Inr v \<Rightarrow> v)
                (case readString e (getAddress e a) Erc721Abi Symbol of
                   Inl x \<Rightarrow> ''UNKNOWN'' | Inr v \<Rightarrow> v)"
    by (simp add: analyze_valid [OF v] contract_info_contract [OF g hc bal]
          classify_not_erc20 [OF p] erc721_probe_true [OF si] token_section_of_def)
next
  assume h: "isAddress e a
      \<and> getBytecode e (getAddress e a) = Inr (Some code) \<and> code \<noteq> [] \<and> code \<noteq> ''0x''
      \<and> getBalance e (getAddress e a) = Inr b"
  then have v: "isAddress e a" and g: "getBytecode e (getAddress e a) = Inr (Some code)"
    and hc: "hasCode (Some code)" and bal: "getBalance e (getAddress e a) = Inr b"
    by (simp_all add: hasCode_def)
  have fl: "fst (snd (classify e (getAddress e a))) = fst (erc20_probe e (getAddress e a))"
    by (simp add: classify_def split: prod.splits)
  have dec: "readUint e (getAddress e a) Erc20Abi Decimals = Inr (the (decimals ti))"
    if "fst (snd (classify e (getAddress e a)))"
      and "snd (snd (snd (classify e (getAddress e a)))) = Some ti" for ti
    using that
    by (auto simp: classify_def erc20_probe_def split: prod.splits sum.splits if_splits)
  show "\<exists>an. snd (analyze e a) = Inr an
          \<and> (isERC20 (contractInfo an) \<longleftrightarrow>
               (\<exists>n s d ts. readString e (getAddress e a) Erc20Abi Name = Inr n
                  \<and> readString e (getAddress e a) Erc20Abi Symbol = Inr s
                  \<and> readUint e (getAddress e a) Erc20Abi Decimals = Inr d
                  \<and> readUint e (getAddress e a) Erc20Abi TotalSupply = Inr ts))
          \<and> (\<forall>ti. isERC20 (contractInfo an) \<and> tokenInfo (contractInfo an) = Some ti
                \<longrightarrow> readUint e (getAddress e a) Erc20Abi Decimals = Inr (the (decimals ti)))"
    using dec
    by (simp add: analyze_valid [OF v] contract_info_contract [OF g hc bal] fl erc20_flag_iff)
next
  assume h: "isAddress e w \<and> isAddress e t
      \<and> readUint e (getAddress e t) BalanceErc20Abi (BalanceOf (getAddress e w)) = Inr v
      \<and> formatUnits e v
           (case readUint e (getAddress e t) BalanceErc20Abi Decimals of
              Inl x \<Rightarrow> 18 | Inr d \<Rightarrow> d) = Inr fb"
  then show "get_erc20_balance e w t =
          Inr \<lparr> tokenName =
                  (case readString e (getAddress e t) BalanceErc20Abi Name of
                     Inl x \<Rightarrow> ''Unknown'' | Inr n \<Rightarrow> n),
                tokenSymbol =
                  (case readString e (getAddress e t) BalanceErc20Abi Symbol of
                     Inl x \<Rightarrow> ''UNKNOWN'' | Inr n \<Rightarrow> n),
                formattedBalance = fb, tokenAddressShown = t \<rparr>"
    by (simp add: get_erc20_balance_def Let_def catch_default_def)
qed

theorem metadata_defaults_where_best_effort_witness:
  "isl (readString nft_env sample_address Erc721Abi Name)
   \<and> isl (readString nft_env sample_address Erc721Abi Symbol)
   \<and> snd (get_contract_source nft_env sample_address) =
       Inr (ContractReport ''5'' 2 (Erc721Detected ''Unknown'' ''UNKNOWN'') SourceNotVerified)
   \<and> isl (readString balance_only_env sample_address BalanceErc20Abi Name)
   \<and> isl (readString balance_only_env sample_address BalanceErc20Abi Symbol)
   \<and> isl (readUint balance_only_env sample_address BalanceErc20Abi Decimals)
   \<and> get_erc20_balance balance_only_env sample_address sample_address =
       Inr \<lparr> tokenName = ''Unknown'', tokenSymbol = ''UNKNOWN'',
             formattedBalance = ''0.000000000000000042'',
             tokenAddressShown = sample_address \<rparr>
   \<and> (\<exists>an. snd (analyze both_env sample_address) = Inr an
         \<and> isERC20 (contractInfo an)
         \<and> readUint both_env sample_address Erc20Abi Decimals = Inr 6)"
proof -
  have r1: "readString balance_only_env sample_address BalanceErc20Abi Name = Inl ''execution reverted''"
      "readString balance_only_env sample_address BalanceErc20Abi Symbol = Inl ''execution reverted''"
      "readUint balance_only_env sample_address BalanceErc20Abi Decimals = Inl ''execution reverted''"
      "getAddress balance_only_env sample_address = sample_address"
      "formatUnits balance_only_env 42 18 = Inr ''0.000000000000000042''"
    by (simp_all add: balance_only_env_def eoa_env_def sample_formatUnits_results)
  have h1: "isAddress balance_only_env sample_address \<and> isAddress balance_only_env sample_address
      \<and> readUint balance_only_env (getAddress balance_only_env sample_address) BalanceErc20Abi
          (BalanceOf (getAddress balance_only_env sample_address)) = Inr 42
      \<and> formatUnits balance_only_env 42
           (case readUint balance_only_env (getAddress balance_only_env sample_address)
                   BalanceErc20Abi Decimals of
              Inl x \<Rightarrow> 18 | Inr d \<Rightarrow> d) = Inr ''0.000000000000000042''"
    by (simp add: r1) (simp add: balance_only_env_def sample_env_facts sample_valid)
  have r2: "readString nft_env sample_address Erc721Abi Name = Inl ''execution reverted''"
      "readString nft_env sample_address Erc721Abi Symbol = Inl ''execution reverted''"
      "getAddress nft_env sample_address = sample_address"
      "formatEther nft_env 5000000000000000000 = ''5''"
      "fetch nft_env (apiUrl sample_address) = FetchRejected"
      "bytecodeSizeOf ''0x6080'' = 2"
    by (simp_all add: nft_env_def unknown_env_def eoa_env_def sample_formats bytecodeSizeOf_def)
  have h2: "isAddress nft_env sample_address
      \<and> getBytecode nft_env (getAddress nft_env sample_address) = Inr (Some ''0x6080'')
      \<and> ''0x6080'' \<noteq> [] \<and> ''0x6080'' \<noteq> ''0x''
      \<and> getBalance nft_env (getAddress nft_env sample_address) = Inr 5000000000000000000
      \<and> (isl (readString nft_env (getAddress nft_env sample_address) Erc20Abi Name)
           \<or> isl (readString nft_env (getAddress nft_env sample_address) Erc20Abi Symbol)
           \<or> isl (readUint nft_env (getAddress nft_env sample_address) Erc20Abi Decimals)
           \<or> isl (readUint nft_env (getAddress nft_env sample_address) Erc20Abi TotalSupply))
      \<and> readBool nft_env (getAddress nft_env sample_address) Erc721Abi
           (SupportsInterface ''0x80ac58cd'') = Inr True"
    by (simp add: sample_env_facts sample_valid)
       (simp add: nft_env_def unknown_env_def eoa_env_def)
  have h3: "isAddress both_env sample_address
      \<and> getBytecode both_env (getAddress both_env sample_address) = Inr (Some ''0x6080'')
      \<and> ''0x6080'' \<noteq> [] \<and> ''0x6080'' \<noteq> ''0x''
      \<and> getBalance both_env (getAddress both_env sample_address) = Inr 5000000000000000000"
    by (simp add: sample_env_facts sample_valid)
       (simp add: both_env_def unknown_env_def eoa_env_def)
  have r3: "readString both_env sample_address Erc20Abi Name = Inr ''Token''"
      "readString both_env sample_address Erc20Abi Symbol = Inr ''TKN''"
      "readUint both_env sample_address Erc20Abi Decimals = Inr 6"
      "readUint both_env sample_address Erc20Abi TotalSupply = Inr 1000000"
      "getAddress both_env sample_address = sample_address"
    by (simp_all add: both_env_def unknown_env_def eoa_env_def)
  note m1 = metadata_defaults_where_best_effort
      [where e = nft_env and a = sample_address and code = "''0x6080''"
         and b = 5000000000000000000,
       THEN conjunct1, rule_format, OF h2]
  note m2 = metadata_defaults_where_best_effort
      [where e = both_env and a = sample_address and code = "''0x6080''"
         and b = 5000000000000000000,
       THEN conjunct2, THEN conjunct1, rule_format, OF h3]
  note m3 = metadata_defaults_where_best_effort
      [where e = balance_only_env and w = sample_address and t = sample_address and v = 42
         and fb = "''0.000000000000000042''",
       THEN conjunct2, THEN conjunct2, rule_format, OF h1]
  from m1 obtain an where an: "snd (analyze nft_env sample_address) = Inr an"
      "token_section_of (contractInfo an) = Erc721Detected ''Unknown'' ''UNKNOWN''"
    by (auto simp: r2)
  have ic: "isContract (contractInfo an)" "balance (contractInfo an) = ''5''"
      "bytecodeSize (contractInfo an) = 2" "sourceCode an = None"
    using an(1) h2
    by (auto simp: analyze_valid contract_info_contract [where s = "''0x6080''"] hasCode_def r2
          sourceCodeData_def)
  have rep: "snd (get_contract_source nft_env sample_address) =
       Inr (ContractReport ''5'' 2 (Erc721Detected ''Unknown'' ''UNKNOWN'') SourceNotVerified)"
    by (simp add: get_contract_source_eq an ic build_response_def source_section_of_def)
  from m2 have e20: "\<exists>an. snd (analyze both_env sample_address) = Inr an
         \<and> isERC20 (contractInfo an)"
    by (auto simp: r3)
  from rep m3 e20 show ?thesis by (simp add: r1 r2 r3)
qed

text \<open>
  Claim C6 as stated fails for the ERC-20 candidate of \<open>get-contract-source\<close>: on the
  contract below \<open>name()\<close>, \<open>symbol()\<close> and \<open>totalSupply()\<close> succeed and only \<open>decimals()\<close>
  fails; the precision does not become 18, the candidate fails, and the response carries
  the "unknown type" section.
\<close>

theorem unresolved_decimals_fail_the_candidate_counterexample:
  "readString no_decimals_env sample_address Erc20Abi Name = Inr ''Token''
   \<and> readString no_decimals_env sample_address Erc20Abi Symbol = Inr ''TKN''
   \<and> readUint no_decimals_env sample_address Erc20Abi TotalSupply = Inr 1000000
   \<and> readUint no_decimals_env sample_address Erc20Abi Decimals = Inl ''execution reverted''
   \<and> snd (get_contract_source no_decimals_env sample_address) =
       Inr (ContractReport ''5'' 2 UnknownType SourceNotVerified)
   \<and> snd (analyze no_decimals_env sample_address) =
       Inr \<lparr> contractInfo =
               \<lparr> exists = True, isContract = True, balance = ''5'', bytecodeSize = 2,
                 isERC20 = False, isERC721 = False, tokenInfo = None,
                 transactionCount = 0 \<rparr>,
             sourceCode = None \<rparr>"
proof -
  have g: "getAddress no_decimals_env sample_address = sample_address"
    by (simp add: no_decimals_env_def unknown_env_def eoa_env_def)
  have v: "isAddress no_decimals_env sample_address"
    by (simp add: no_decimals_env_def sample_env_facts sample_valid)
  have c: "getBytecode no_decimals_env (getAddress no_decimals_env sample_address)
             = Inr (Some ''0x6080'')"
      "hasCode (Some ''0x6080'')"
      "getBalance no_decimals_env (getAddress no_decimals_env sample_address)
         = Inr 5000000000000000000"
    by (simp_all add: no_decimals_env_def unknown_env_def eoa_env_def hasCode_def)
  have r: "readString no_decimals_env sample_address Erc20Abi Name = Inr ''Token''"
      "readString no_decimals_env sample_address Erc20Abi Symbol = Inr ''TKN''"
      "readUint no_decimals_env sample_address Erc20Abi TotalSupply = Inr 1000000"
      "readUint no_decimals_env sample_address Erc20Abi Decimals = Inl ''execution reverted''"
    by (simp_all add: no_decimals_env_def unknown_env_def eoa_env_def)
  have si: "readBool no_decimals_env sample_address Erc721Abi (SupportsInterface ''0x80ac58cd'')
              \<noteq> Inr True"
    by (simp add: no_decimals_env_def unknown_env_def eoa_env_def)
  have p: "erc20_probe no_decimals_env sample_address = (False, None)"
    by (simp add: erc20_probe_failed_iff r)
  have f: "formatEther no_decimals_env 5000000000000000000 = ''5''"
      "fetch no_decimals_env (apiUrl sample_address) = FetchRejected"
      "bytecodeSizeOf ''0x6080'' = 2"
    by (simp_all add: no_decimals_env_def unknown_env_def eoa_env_def bytecodeSizeOf_def
          sample_formats)
  have a: "snd (analyze no_decimals_env sample_address) =
       Inr \<lparr> contractInfo =
               \<lparr> exists = True, isContract = True, balance = ''5'', bytecodeSize = 2,
                 isERC20 = False, isERC721 = False, tokenInfo = None,
                 transactionCount = 0 \<rparr>,
             sourceCode = None \<rparr>"
    by (simp add: analyze_valid [OF v] contract_info_contract [OF c] g f
          classify_not_erc20 [OF p] erc721_probe_other [OF si] sourceCodeData_def)
  have "snd (get_contract_source no_decimals_env sample_address) =
       Inr (ContractReport ''5'' 2 UnknownType SourceNotVerified)"
    by (simp add: get_contract_source_eq a build_response_def token_section_of_def
          source_section_of_def)
  with a r show ?thesis by simp
qed

end
